theory Spec2Isabelle
  imports Complex_Main
begin

section \<open>Python strings\<close>

text \<open>
  A Python \<open>str\<close> is a sequence of Unicode code points, and \<open>len\<close> counts code points.
  The Thai block (U+0E00 to U+0E7F) lies beyond one byte, so a string is a list of code
  points, each a natural number. \<open>ustr\<close> turns an ASCII literal into such a list.
\<close>

type_synonym ustring = "nat list"

definition ustr :: "string \<Rightarrow> ustring" where
  "ustr s = map of_char s"

text \<open>The code points for which \<open>str.isspace\<close> holds; \<open>str.split()\<close> and
  \<open>str.strip()\<close> without arguments use them.\<close>

definition py_isspace :: "nat \<Rightarrow> bool" where
  "py_isspace c \<longleftrightarrow>
     (9 \<le> c \<and> c \<le> 13) \<or> (28 \<le> c \<and> c \<le> 32) \<or> c = 133 \<or> c = 160 \<or> c = 5760 \<or>
     (8192 \<le> c \<and> c \<le> 8202) \<or> c = 8232 \<or> c = 8233 \<or> c = 8239 \<or> c = 8287 \<or> c = 12288"

text \<open>\<open>s.strip()\<close>: leading and trailing whitespace removed.\<close>

definition py_strip :: "ustring \<Rightarrow> ustring" where
  "py_strip s = rev (dropWhile py_isspace (rev (dropWhile py_isspace s)))"

text \<open>\<open>s.split()\<close>: the maximal runs of non-whitespace, in order. The accumulator
  \<open>cur\<close> holds the run being read.\<close>

fun split_runs :: "ustring \<Rightarrow> ustring \<Rightarrow> ustring list" where
  "split_runs cur [] = (if cur = [] then [] else [cur])"
| "split_runs cur (c # cs) =
     (if py_isspace c then (if cur = [] then split_runs [] cs else cur # split_runs [] cs)
      else split_runs (cur @ [c]) cs)"

definition py_split :: "ustring \<Rightarrow> ustring list" where
  "py_split s = split_runs [] s"

text \<open>\<open>sep.join(parts)\<close>.\<close>

fun py_join :: "ustring \<Rightarrow> ustring list \<Rightarrow> ustring" where
  "py_join sep [] = []"
| "py_join sep [p] = p"
| "py_join sep (p # q # ps) = p @ sep @ py_join sep (q # ps)"

text \<open>A slice bound \<open>i\<close> of a sequence of length \<open>n\<close>: a negative bound counts
  from the end, and the result is clamped to \<open>0..n\<close>.\<close>

definition slice_bound :: "int \<Rightarrow> nat \<Rightarrow> nat" where
  "slice_bound i n = (if i < 0 then nat (max 0 (i + int n)) else min (nat i) n)"

text \<open>\<open>s[start:end]\<close>.\<close>

definition py_slice :: "'a list \<Rightarrow> int \<Rightarrow> int \<Rightarrow> 'a list" where
  "py_slice s start end =
     (let a = slice_bound start (length s); b = slice_bound end (length s)
      in take (b - a) (drop a s))"

text \<open>\<open>s.rfind(c, start, end)\<close> for a one-character \<open>c\<close>: the highest index in
  the slice \<open>start:end\<close> that holds \<open>c\<close>, or \<open>-1\<close>.\<close>

definition py_rfind :: "ustring \<Rightarrow> nat \<Rightarrow> int \<Rightarrow> int \<Rightarrow> int" where
  "py_rfind s c start end =
     (let a = slice_bound start (length s); b = slice_bound end (length s);
          hits = filter (\<lambda>i. s ! i = c) [a..<b]
      in if hits = [] then - 1 else int (last hits))"

text \<open>\<open>needle in hay\<close> for strings: \<open>needle\<close> occurs as a contiguous substring.\<close>

fun starts_with :: "ustring \<Rightarrow> ustring \<Rightarrow> bool" where
  "starts_with [] hay = True"
| "starts_with (n # ns) [] = False"
| "starts_with (n # ns) (h # hs) = (n = h \<and> starts_with ns hs)"

fun py_in :: "ustring \<Rightarrow> ustring \<Rightarrow> bool" where
  "py_in needle [] = (needle = [])"
| "py_in needle (h # hs) = (starts_with needle (h # hs) \<or> py_in needle hs)"

text \<open>\<open>s.replace(a, b)\<close> for one-character \<open>a\<close> and \<open>b\<close>.\<close>

definition py_replace :: "nat \<Rightarrow> nat \<Rightarrow> ustring \<Rightarrow> ustring" where
  "py_replace a b s = map (\<lambda>c. if c = a then b else c) s"

section \<open>Collection names (vector_service.py)\<close>

text \<open>
  \<open>process_document\<close>, line 98, and \<open>search\<close>, line 237, each compute
  \<open>f"user_{user_id.replace('-', '_')}"\<close>. The hyphen is code point 45, the underscore 95.
\<close>

definition process_document_collection_name :: "ustring \<Rightarrow> ustring" where
  "process_document_collection_name user_id = ustr ''user_'' @ py_replace 45 95 user_id"

definition search_collection_name :: "ustring \<Rightarrow> ustring" where
  "search_collection_name user_id = ustr ''user_'' @ py_replace 45 95 user_id"

text \<open>
  The user ids the code receives: every caller passes \<open>str(current_user.id)\<close>
  (routers/llm.py lines 165, 198, 372 and 429, routers/files.py line 110), and the id is
  a UUID column. \<open>str\<close> of a
  UUID is 32 lower-case hexadecimal digits in groups of 8, 4, 4, 4 and 12, with a hyphen
  (code point 45) at the indices 8, 13, 18 and 23.
\<close>

definition is_hex_digit :: "nat \<Rightarrow> bool" where
  "is_hex_digit c \<longleftrightarrow> (48 \<le> c \<and> c \<le> 57) \<or> (97 \<le> c \<and> c \<le> 102)"

definition is_uuid_str :: "ustring \<Rightarrow> bool" where
  "is_uuid_str s \<longleftrightarrow>
     length s = 36 \<and>
     list_all (\<lambda>p. if fst p \<in> set [8, 13, 18, 23] then snd p = 45 else is_hex_digit (snd p))
       (enumerate 0 s)"

text \<open>A letter, a digit or the underscore: the characters that need no normalizing.\<close>

definition is_word_char :: "nat \<Rightarrow> bool" where
  "is_word_char c \<longleftrightarrow>
     (48 \<le> c \<and> c \<le> 57) \<or> (65 \<le> c \<and> c \<le> 90) \<or> (97 \<le> c \<and> c \<le> 122) \<or> c = 95"

section \<open>The chunker (VectorService._split_text)\<close>

text \<open>
  What the module takes from its runtime: whether \<open>pythainlp\<close> was importable
  (\<open>HAS_PYTHAINLP\<close>), its two tokenizers, and the Unicode table behind \<open>str.lower\<close>.
\<close>

record runtime =
  HAS_PYTHAINLP :: bool
  sent_tokenize :: "ustring \<Rightarrow> ustring list"
  word_tokenize :: "ustring \<Rightarrow> ustring list"
  str_lower :: "ustring \<Rightarrow> ustring"

text \<open>The regular-expression search for a character of the Thai block, U+0E00 to U+0E7F
  (line 186): some code point lies in 3584..3711.\<close>

definition has_thai :: "ustring \<Rightarrow> bool" where
  "has_thai text = list_ex (\<lambda>c. 3584 \<le> c \<and> c \<le> 3711) text"

text \<open>The loop of the Thai branch (lines 194 to 200), over the sentences left, with
  \<open>current_chunk\<close> and \<open>chunks\<close> as state; lines 202 to 204 run when no sentence is left.\<close>

fun thai_pack :: "int \<Rightarrow> ustring list \<Rightarrow> ustring \<Rightarrow> ustring list \<Rightarrow> ustring list" where
  "thai_pack chunk_size [] current_chunk chunks =
     (if current_chunk \<noteq> [] then chunks @ [py_strip current_chunk] else chunks)"
| "thai_pack chunk_size (sent # sentences) current_chunk chunks =
     (if int (length current_chunk) + int (length sent) \<le> chunk_size
      then thai_pack chunk_size sentences (current_chunk @ sent @ [32]) chunks
      else thai_pack chunk_size sentences (sent @ [32])
             (if current_chunk \<noteq> [] then chunks @ [py_strip current_chunk] else chunks))"

text \<open>Lines 211 to 215: the right edge of the window that starts at \<open>start\<close>.\<close>

definition window_end :: "ustring \<Rightarrow> int \<Rightarrow> int \<Rightarrow> int" where
  "window_end text chunk_size start =
     (let end = start + chunk_size
      in if end < int (length text) then
           (let last_space = py_rfind text 32 start end
            in if last_space \<noteq> - 1 \<and> last_space > start + chunk_size div 2
               then last_space else end)
         else end)"

text \<open>The \<open>while\<close> loop of the default branch (lines 210 to 219). It need not terminate
  for every choice of \<open>chunk_size\<close> and \<open>overlap\<close>; \<open>None\<close> is the loop that runs
  forever.\<close>

partial_function (option) split_loop ::
  "ustring \<Rightarrow> int \<Rightarrow> int \<Rightarrow> int \<Rightarrow> ustring list \<Rightarrow> ustring list option" where
  "split_loop text chunk_size overlap start chunks =
     (if start < int (length text) then
        (let end = window_end text chunk_size start;
             chunk = py_slice text start end
         in split_loop text chunk_size overlap (end - overlap)
              (if py_strip chunk \<noteq> [] then chunks @ [chunk] else chunks))
      else Some chunks)"

definition split_text :: "runtime \<Rightarrow> ustring \<Rightarrow> int \<Rightarrow> int \<Rightarrow> ustring list option" where
  "split_text rt text chunk_size overlap =
     (if text = [] then Some []
      else if has_thai text \<and> HAS_PYTHAINLP rt
      then Some (thai_pack chunk_size (sent_tokenize rt text) [] [])
      else split_loop (py_join [32] (py_split text)) chunk_size overlap 0 [])"

text \<open>Whether a chunk respects the size bound of the chunker: it is no longer than
  \<open>chunk_size\<close>, or the Thai branch ran and the chunk is one sentence, itself longer
  than \<open>chunk_size\<close>, as line 200 stores it and line 199 or 203 strips it.\<close>

definition chunk_within :: "runtime \<Rightarrow> ustring \<Rightarrow> int \<Rightarrow> ustring \<Rightarrow> bool" where
  "chunk_within rt t chunk_size c \<longleftrightarrow>
     int (length c) \<le> chunk_size \<or>
     (has_thai t \<and> HAS_PYTHAINLP rt \<and>
      list_ex (\<lambda>sent. chunk_size < int (length sent) \<and> c = py_strip (sent @ [32])) (sent_tokenize rt t))"

section \<open>A runtime for the examples\<close>

text \<open>
  pythainlp present; its sentence engine \<open>whitespace+newline\<close> splits at whitespace
  like \<open>str.split()\<close>; a word tokenizer that does the same; lower-casing of the ASCII
  letters.
\<close>

definition ascii_lower :: "ustring \<Rightarrow> ustring" where
  "ascii_lower s = map (\<lambda>c. if 65 \<le> c \<and> c \<le> 90 then c + 32 else c) s"

definition example_runtime :: runtime where
  "example_runtime = \<lparr>HAS_PYTHAINLP = True, sent_tokenize = py_split,
     word_tokenize = py_split, str_lower = ascii_lower\<rparr>"

text \<open>The example runtime without pythainlp.\<close>

definition example_runtime_basic :: runtime where
  "example_runtime_basic = example_runtime\<lparr>HAS_PYTHAINLP := False\<rparr>"

section \<open>Errors\<close>

text \<open>The exceptions the modelled code can raise. A function that can raise returns
  \<open>exn + 'a\<close>, with \<open>Inl\<close> the exception.\<close>

datatype exn = IndexError | TypeError | ZeroDivisionError | StoreError ustring
  | ValueError ustring | ValueErrorFrom ustring exn

section \<open>Chunks and search results\<close>

text \<open>The metadata of a chunk: the keys \<open>process_document\<close> writes (lines 90 to 95). A
  key can be absent: line 296 of \<open>search\<close> uses the empty dictionary when the store
  returns no metadata.\<close>

record metadata =
  md_file_id :: "ustring option"
  md_page :: "ustring option"
  md_user_id :: "ustring option"
  md_chunk_index :: "int option"

text \<open>An entry of the list \<open>search\<close> returns (lines 294 to 298).\<close>

record search_result =
  sr_content :: ustring
  sr_metadata :: metadata
  sr_distance :: real

section \<open>Keyword re-scoring (VectorService.search, Stage 1.5)\<close>

text \<open>Lines 271 to 273: the set of query tokens longer than one character.\<close>

definition target_words :: "runtime \<Rightarrow> ustring \<Rightarrow> ustring set" where
  "target_words rt query =
     Set.filter (\<lambda>w. length w > 1) (set (word_tokenize rt (str_lower rt query)))"

text \<open>Lines 275 to 279: \<open>len(matches) / len(target_words)\<close>. The source computes it only
  when \<open>target_words\<close> is not empty.\<close>

definition match_ratio :: "runtime \<Rightarrow> ustring \<Rightarrow> ustring \<Rightarrow> real" where
  "match_ratio rt query doc =
     (let doc_words = set (word_tokenize rt (str_lower rt doc));
          matches = target_words rt query \<inter> doc_words
      in real (card matches) / real (card (target_words rt query)))"

text \<open>Lines 287 and 288, the branch without pythainlp: the query words longer than one
  character, and how many of them occur in the lower-cased document.\<close>

definition query_words_basic :: "runtime \<Rightarrow> ustring \<Rightarrow> ustring list" where
  "query_words_basic rt query = filter (\<lambda>w. length w > 1) (py_split (str_lower rt query))"

definition found_count :: "runtime \<Rightarrow> ustring \<Rightarrow> ustring \<Rightarrow> nat" where
  "found_count rt query doc =
     length (filter (\<lambda>w. py_in w (str_lower rt doc)) (query_words_basic rt query))"

text \<open>Lines 270 to 291: the distance of a candidate after the keyword boost. The source's
  variable \<open>dist\<close> is \<open>dst\<close> here.\<close>

definition rescore :: "runtime \<Rightarrow> ustring \<Rightarrow> ustring \<Rightarrow> real \<Rightarrow> real" where
  "rescore rt query doc dst =
     (if HAS_PYTHAINLP rt then
        (if target_words rt query \<noteq> {} then
           (if match_ratio rt query doc > 0 then
              (let boost = min dst (match_ratio rt query doc * 0.9)
               in max 0.01 (dst - boost))
            else dst)
         else dst)
      else
        (if found_count rt query doc > 0 then
           (let boost = (if query_words_basic rt query \<noteq> []
                         then min 0.5 (real (found_count rt query doc)
                                       / real (length (query_words_basic rt query)) * 0.6)
                         else 0)
            in max 0.01 (dst - boost))
         else dst))"

section \<open>Rounding\<close>

text \<open>\<open>round(x, 3)\<close> over the reals: to the nearest multiple of one thousandth, a tie
  to the even one.\<close>

definition round_half_even :: "real \<Rightarrow> int" where
  "round_half_even x =
     (let f = \<lfloor>x\<rfloor>; r = x - of_int f
      in if r < 1 / 2 then f else if 1 / 2 < r then f + 1 else if even f then f else f + 1)"

definition py_round3 :: "real \<Rightarrow> real" where
  "py_round3 x = of_int (round_half_even (x * 1000)) / 1000"

section \<open>Citation ranking (routers/llm.py, chat)\<close>

text \<open>Lines 238 to 250: the relevance score of a result at distance \<open>dst\<close>. The division
  of line 238 raises when its denominator is zero.\<close>

definition relevance_score :: "bool \<Rightarrow> real \<Rightarrow> exn + real" where
  "relevance_score is_broad_query dst =
     (if 1.0 + dst * 0.35 = 0 then Inl ZeroDivisionError
      else
        (let score = 1.0 / (1.0 + dst * 0.35);
             score = (if is_broad_query then max 0.70 (score + 0.1) else max 0.45 score);
             score = (if dst < 0.4 then min 0.99 (score * 1.1) else score)
         in Inr (py_round3 score)))"

text \<open>The score as claim C4 words it, before rounding.\<close>

definition claimed_score :: "bool \<Rightarrow> real \<Rightarrow> real" where
  "claimed_score b d =
     (let s = 1 / (1 + d * 0.35);
          s' = (if b then max 0.70 (s + 0.10) else max 0.45 s)
      in if d < 0.4 then min 0.99 (s' * 1.1) else s')"



text \<open>The \<open>Citation\<close> model (lines 39 to 44).\<close>

record citation =
  cit_source :: ustring
  cit_file_id :: ustring
  cit_page :: ustring
  cit_content :: ustring
  cit_relevance_score :: real

text \<open>Line 232: some keyword of a summary request occurs in the lower-cased query. The last
  two keywords are the Thai words of the source, as code points.\<close>

definition is_broad_query :: "runtime \<Rightarrow> ustring \<Rightarrow> bool" where
  "is_broad_query rt clean_query =
     list_ex (\<lambda>word. py_in word (str_lower rt clean_query))
       [ustr ''summarize'', ustr ''summary'', ustr ''overview'',
        [3626, 3619, 3640, 3611], [3616, 3634, 3614, 3619, 3623, 3617]]"

text \<open>\<open>d[k] = v\<close> on a dictionary kept as an association list in insertion order: an
  existing key keeps its place.\<close>

fun dict_set :: "('k \<times> 'v) list \<Rightarrow> 'k \<Rightarrow> 'v \<Rightarrow> ('k \<times> 'v) list" where
  "dict_set [] k v = [(k, v)]"
| "dict_set ((k', v') # kvs) k v =
     (if k' = k then (k, v) # kvs else (k', v') # dict_set kvs k v)"

text \<open>Line 222: \<open>str(meta.get("file_id", "unknown"))\<close>.\<close>

definition result_file_id :: "search_result \<Rightarrow> ustring" where
  "result_file_id result =
     (case md_file_id (sr_metadata result) of Some f \<Rightarrow> f | None \<Rightarrow> ustr ''unknown'')"

text \<open>The loop of lines 218 to 260 over \<open>search_results\<close>, with \<open>rag_context\<close> and
  \<open>unique_citations\<close> as state. \<open>Inl\<close> is the exception that leaves the loop.\<close>

fun citation_loop ::
  "runtime \<Rightarrow> (ustring \<rightharpoonup> ustring) \<Rightarrow> ustring \<Rightarrow> search_result list \<Rightarrow>
   ustring list \<Rightarrow> (ustring \<times> citation) list \<Rightarrow>
   exn + (ustring list \<times> (ustring \<times> citation) list)" where
  "citation_loop rt file_names clean_query [] rag_context unique_citations =
     Inr (rag_context, unique_citations)"
| "citation_loop rt file_names clean_query (result # rest) rag_context unique_citations =
     (let chunk = sr_content result in
      if py_strip chunk \<noteq> [] then
        (let meta = sr_metadata result;
             fid = result_file_id result;
             fname = (case file_names fid of Some n \<Rightarrow> n | None \<Rightarrow> fid);
             page = (case md_page meta of Some p \<Rightarrow> p | None \<Rightarrow> ustr ''Unknown'');
             rag_context' = rag_context @
               [ustr ''[SOURCE: '' @ fname @ ustr '', PAGE: '' @ page @ ustr '']'' @ [10] @ chunk]
         in case relevance_score (is_broad_query rt clean_query) (sr_distance result) of
              Inl e \<Rightarrow> Inl e
            | Inr current_score \<Rightarrow>
                citation_loop rt file_names clean_query rest rag_context'
                  (if (case map_of unique_citations fid of
                         None \<Rightarrow> True
                       | Some c \<Rightarrow> current_score > cit_relevance_score c)
                   then dict_set unique_citations fid
                          \<lparr>cit_source = fname, cit_file_id = fid, cit_page = page,
                           cit_content = py_slice chunk 0 200 @ ustr ''...'',
                           cit_relevance_score = current_score\<rparr>
                   else unique_citations))
      else citation_loop rt file_names clean_query rest rag_context unique_citations)"

text \<open>Lines 215 to 264: the loop from the empty state, then the values of the dictionary
  sorted by descending score. Python's sort is stable, also with \<open>reverse=True\<close>.\<close>

definition rank_citations ::
  "runtime \<Rightarrow> (ustring \<rightharpoonup> ustring) \<Rightarrow> ustring \<Rightarrow> search_result list \<Rightarrow>
   exn + (ustring list \<times> citation list)" where
  "rank_citations rt file_names clean_query search_results =
     (case citation_loop rt file_names clean_query search_results [] [] of
        Inl e \<Rightarrow> Inl e
      | Inr (rag_context, unique_citations) \<Rightarrow>
          Inr (rag_context, sort_key (\<lambda>c. - cit_relevance_score c) (map snd unique_citations)))"

text \<open>Line 220: a result is used only when its text is not blank.\<close>

definition cited :: "search_result \<Rightarrow> bool" where
  "cited result \<longleftrightarrow> py_strip (sr_content result) \<noteq> []"

text \<open>A citation \<open>c\<close> is the best for file \<open>k\<close> among the results \<open>seen\<close>: its
  score is the score of some used result of that file, and no used result of that file
  scores higher.\<close>

definition best_for :: "bool \<Rightarrow> search_result list \<Rightarrow> ustring \<Rightarrow> citation \<Rightarrow> bool" where
  "best_for b seen k c \<longleftrightarrow>
     cit_file_id c = k \<and>
     (\<exists>r \<in> set seen. cited r \<and> result_file_id r = k
         \<and> relevance_score b (sr_distance r) = Inr (cit_relevance_score c)) \<and>
     (\<forall>r \<in> set seen. \<forall>s. cited r \<and> result_file_id r = k
         \<and> relevance_score b (sr_distance r) = Inr s \<longrightarrow> s \<le> cit_relevance_score c)"

text \<open>The invariant of the loop after the results \<open>seen\<close>.\<close>

definition cit_inv :: "bool \<Rightarrow> search_result list \<Rightarrow> (ustring \<times> citation) list \<Rightarrow> bool" where
  "cit_inv b seen u \<longleftrightarrow>
     distinct (map fst u) \<and>
     (\<forall>k. (map_of u k = None \<longrightarrow> (\<forall>r \<in> set seen. cited r \<longrightarrow> result_file_id r \<noteq> k)) \<and>
          (\<forall>c. map_of u k = Some c \<longrightarrow> best_for b seen k c))"

text \<open>Results for the examples.\<close>

definition example_meta :: "ustring \<Rightarrow> metadata" where
  "example_meta fid = \<lparr>md_file_id = Some fid, md_page = Some (ustr ''Page 1''),
     md_user_id = Some (ustr ''u1''), md_chunk_index = Some 0\<rparr>"

definition example_result :: "ustring \<Rightarrow> ustring \<Rightarrow> real \<Rightarrow> search_result" where
  "example_result doc fid d = \<lparr>sr_content = doc, sr_metadata = example_meta fid, sr_distance = d\<rparr>"

section \<open>The index store\<close>

text \<open>
  The store is ChromaDB, an external library. Its calls are parameters of the model: a
  record of operations over a type \<open>'c\<close> of collections, each returning what the
  call returns or the exception it raises. The client that \<open>get_client\<close> returns is the
  map from collection names to collections, and \<open>None\<close> when no client could be made
  (lines 55 to 57).
\<close>

text \<open>The \<open>where\<close> filter of lines 246 to 251.\<close>

datatype where_filter = FileIdEq ustring | FileIdIn "ustring list"

text \<open>What \<open>collection.query\<close> and \<open>collection.get\<close> return: dictionaries whose
  entries can be \<open>None\<close>. A query result holds one list per query text.\<close>

record query_result =
  qr_documents :: "ustring list list option"
  qr_distances :: "real list list option"
  qr_metadatas :: "metadata list list option"

record get_result =
  gr_documents :: "ustring list option"
  gr_metadatas :: "metadata list option"

text \<open>\<open>coll_create name user_id\<close> is the creating half of
  \<open>get_or_create_collection\<close>; \<open>coll_add c ids documents metadatas\<close>,
  \<open>coll_query c query_text n_results where\<close> and \<open>coll_get c where limit\<close> are the
  calls of lines 109, 257 and 303.\<close>

record 'c chroma =
  coll_create :: "ustring \<Rightarrow> ustring \<Rightarrow> exn + 'c"
  coll_add :: "'c \<Rightarrow> ustring list \<Rightarrow> ustring list \<Rightarrow> metadata list \<Rightarrow> exn + 'c"
  coll_query :: "'c \<Rightarrow> ustring \<Rightarrow> int \<Rightarrow> where_filter option \<Rightarrow> exn + query_result"
  coll_get :: "'c \<Rightarrow> where_filter option \<Rightarrow> int \<Rightarrow> exn + get_result"

section \<open>Retrieval (VectorService.search)\<close>

text \<open>The empty dictionary of line 296.\<close>

definition empty_metadata :: metadata where
  "empty_metadata = \<lparr>md_file_id = None, md_page = None, md_user_id = None, md_chunk_index = None\<rparr>"

text \<open>\<open>results["distances"][0][i]\<close> (line 266) and
  \<open>results["metadatas"][0][i] if results.get("metadatas") else {}\<close> (line 296), with the
  exceptions of a subscript on \<open>None\<close> and of an index out of range.\<close>

definition query_distance_at :: "query_result \<Rightarrow> nat \<Rightarrow> exn + real" where
  "query_distance_at results i =
     (case qr_distances results of
        None \<Rightarrow> Inl TypeError
      | Some [] \<Rightarrow> Inl IndexError
      | Some (ds # _) \<Rightarrow> if i < length ds then Inr (ds ! i) else Inl IndexError)"

definition query_metadata_at :: "query_result \<Rightarrow> nat \<Rightarrow> exn + metadata" where
  "query_metadata_at results i =
     (case qr_metadatas results of
        None \<Rightarrow> Inr empty_metadata
      | Some [] \<Rightarrow> Inr empty_metadata
      | Some (ms # _) \<Rightarrow> if i < length ms then Inr (ms ! i) else Inl IndexError)"

text \<open>\<open>all_chunks["metadatas"][i]\<close> (lines 310 and 322).\<close>

definition get_metadata_at :: "get_result \<Rightarrow> nat \<Rightarrow> exn + metadata" where
  "get_metadata_at chunks i =
     (case gr_metadatas chunks of
        None \<Rightarrow> Inl TypeError
      | Some ms \<Rightarrow> if i < length ms then Inr (ms ! i) else Inl IndexError)"

text \<open>Stage 1, the loop of lines 265 to 298 over \<open>enumerate(results["documents"][0])\<close>:
  a candidate is kept when its distance after the boost is below 1.8.\<close>

fun stage1_loop ::
  "runtime \<Rightarrow> ustring \<Rightarrow> query_result \<Rightarrow> (nat \<times> ustring) list \<Rightarrow>
   search_result list \<Rightarrow> exn + search_result list" where
  "stage1_loop rt query results [] documents = Inr documents"
| "stage1_loop rt query results ((i, doc) # rest) documents =
     (case query_distance_at results i of
        Inl e \<Rightarrow> Inl e
      | Inr dst0 \<Rightarrow>
          (let dst = rescore rt query doc dst0 in
           if dst < 1.8 then
             (case query_metadata_at results i of
                Inl e \<Rightarrow> Inl e
              | Inr m \<Rightarrow> stage1_loop rt query results rest
                  (documents @ [\<lparr>sr_content = doc, sr_metadata = m, sr_distance = dst\<rparr>]))
           else stage1_loop rt query results rest documents))"

text \<open>Line 264 guards the loop: no documents, no candidates.\<close>

definition stage1 :: "runtime \<Rightarrow> ustring \<Rightarrow> query_result \<Rightarrow> exn + search_result list" where
  "stage1 rt query results =
     (case qr_documents results of
        None \<Rightarrow> Inr []
      | Some [] \<Rightarrow> Inr []
      | Some (docs # _) \<Rightarrow> stage1_loop rt query results (enumerate 0 docs) [])"

text \<open>Line 307: some query word longer than two characters occurs in the lower-cased
  document. The source makes a set of the query words (line 304), which \<open>any\<close> does not
  tell from the list.\<close>

definition keyword_hit :: "runtime \<Rightarrow> ustring \<Rightarrow> ustring \<Rightarrow> bool" where
  "keyword_hit rt query doc =
     list_ex (\<lambda>word. length word > 2 \<and> py_in word (str_lower rt doc))
       (py_split (str_lower rt query))"

text \<open>Stage 2, the loop of lines 305 to 313; the \<open>break\<close> of line 313 follows an
  append.\<close>

fun stage2_loop ::
  "runtime \<Rightarrow> ustring \<Rightarrow> get_result \<Rightarrow> int \<Rightarrow> (nat \<times> ustring) list \<Rightarrow>
   search_result list \<Rightarrow> exn + search_result list" where
  "stage2_loop rt query all_chunks n_results [] documents = Inr documents"
| "stage2_loop rt query all_chunks n_results ((i, doc) # rest) documents =
     (if keyword_hit rt query doc then
        (case get_metadata_at all_chunks i of
           Inl e \<Rightarrow> Inl e
         | Inr m \<Rightarrow>
             (let documents' = documents @ [\<lparr>sr_content = doc, sr_metadata = m, sr_distance = 0.4\<rparr>]
              in if int (length documents') \<ge> n_results then Inr documents'
                 else stage2_loop rt query all_chunks n_results rest documents'))
      else stage2_loop rt query all_chunks n_results rest documents)"

text \<open>Lines 303 to 313: the pool is asked for with \<open>limit=50\<close>.\<close>

definition stage2 ::
  "'c chroma \<Rightarrow> runtime \<Rightarrow> 'c \<Rightarrow> ustring \<Rightarrow> int \<Rightarrow> where_filter option \<Rightarrow>
   exn + search_result list" where
  "stage2 ch rt collection query n_results where_filter =
     (case coll_get ch collection where_filter 50 of
        Inl e \<Rightarrow> Inl e
      | Inr all_chunks \<Rightarrow>
          (case gr_documents all_chunks of
             None \<Rightarrow> Inl TypeError
           | Some docs \<Rightarrow> stage2_loop rt query all_chunks n_results (enumerate 0 docs) []))"

text \<open>Stage 3, lines 318 to 324: every chunk the store returns for \<open>limit=5\<close>, at the
  distance 0.6.\<close>

fun stage3_loop ::
  "get_result \<Rightarrow> (nat \<times> ustring) list \<Rightarrow> search_result list \<Rightarrow> exn + search_result list" where
  "stage3_loop intro_chunks [] documents = Inr documents"
| "stage3_loop intro_chunks ((i, doc) # rest) documents =
     (case get_metadata_at intro_chunks i of
        Inl e \<Rightarrow> Inl e
      | Inr m \<Rightarrow> stage3_loop intro_chunks rest
          (documents @ [\<lparr>sr_content = doc, sr_metadata = m, sr_distance = 0.6\<rparr>]))"

definition stage3 :: "'c chroma \<Rightarrow> 'c \<Rightarrow> where_filter option \<Rightarrow> exn + search_result list" where
  "stage3 ch collection where_filter =
     (case coll_get ch collection where_filter 5 of
        Inl e \<Rightarrow> Inl e
      | Inr intro_chunks \<Rightarrow>
          (case gr_documents intro_chunks of
             None \<Rightarrow> Inl TypeError
           | Some docs \<Rightarrow> stage3_loop intro_chunks (enumerate 0 docs) []))"

text \<open>The \<open>try\<close> block of lines 253 to 327. Stage 2 runs when Stage 1 kept nothing and the
  query is not empty (line 301); Stage 3 runs when there is still nothing (line 316).\<close>

definition search_body ::
  "'c chroma \<Rightarrow> runtime \<Rightarrow> 'c \<Rightarrow> ustring \<Rightarrow> int \<Rightarrow> where_filter option \<Rightarrow>
   exn + search_result list" where
  "search_body ch rt collection query n_results where_filter =
     (case coll_query ch collection query n_results where_filter of
        Inl e \<Rightarrow> Inl e
      | Inr results \<Rightarrow>
          (case stage1 rt query results of
             Inl e \<Rightarrow> Inl e
           | Inr documents \<Rightarrow>
               (case (if documents = [] \<and> query \<noteq> []
                      then stage2 ch rt collection query n_results where_filter
                      else Inr documents) of
                  Inl e \<Rightarrow> Inl e
                | Inr documents \<Rightarrow>
                    (if documents = [] then stage3 ch collection where_filter
                     else Inr documents))))"

text \<open>Lines 246 to 251.\<close>

definition build_where_filter :: "ustring list option \<Rightarrow> where_filter option" where
  "build_where_filter file_ids =
     (case file_ids of
        None \<Rightarrow> None
      | Some [] \<Rightarrow> None
      | Some [fid] \<Rightarrow> Some (FileIdEq fid)
      | Some fids \<Rightarrow> Some (FileIdIn fids))"

text \<open>\<open>search\<close>, lines 223 to 330. No client: the empty list (line 235). The collection
  missing: \<open>get_collection\<close> raises and line 243 returns the empty list. Any exception of
  the \<open>try\<close> block: line 330 returns the empty list.\<close>

definition search ::
  "'c chroma \<Rightarrow> runtime \<Rightarrow> (ustring \<rightharpoonup> 'c) option \<Rightarrow> ustring \<Rightarrow> ustring \<Rightarrow> int \<Rightarrow>
   ustring list option \<Rightarrow> exn + search_result list" where
  "search ch rt client user_id query n_results file_ids =
     (case client of
        None \<Rightarrow> Inr []
      | Some collections \<Rightarrow>
          (case collections (search_collection_name user_id) of
             None \<Rightarrow> Inr []
           | Some collection \<Rightarrow>
               (case search_body ch rt collection query n_results (build_where_filter file_ids) of
                  Inl e \<Rightarrow> Inr []
                | Inr documents \<Rightarrow> Inr documents)))"

section \<open>What the fallback stages return\<close>




section \<open>Indexing (VectorService.process_document)\<close>

text \<open>A unit of extracted text (lines 128, 137 and 155 to 159).\<close>

record content_object =
  co_text :: ustring
  co_page :: "int option"
  co_page_label :: "ustring option"

text \<open>\<open>str(i)\<close> for an integer: its decimal digits.\<close>

fun nat_digits :: "nat \<Rightarrow> ustring" where
  "nat_digits n = (if n < 10 then [48 + n] else nat_digits (n div 10) @ [48 + n mod 10])"

declare nat_digits.simps [simp del]

definition py_str_int :: "int \<Rightarrow> ustring" where
  "py_str_int i = (if i < 0 then 45 # nat_digits (nat (- i)) else nat_digits (nat i))"

text \<open>Line 92: the page label if there is one, else \<open>Page n\<close> for a page number, else
  \<open>General\<close>.\<close>

definition page_of :: "content_object \<Rightarrow> ustring" where
  "page_of obj =
     (let general = (case co_page obj of
                       None \<Rightarrow> ustr ''General''
                     | Some page_no \<Rightarrow> if page_no \<noteq> 0 then ustr ''Page '' @ py_str_int page_no
                                       else ustr ''General'')
      in case co_page_label obj of
           None \<Rightarrow> general
         | Some page_label \<Rightarrow> if page_label \<noteq> [] then page_label else general)"

text \<open>The inner loop of lines 88 to 95.\<close>

fun add_sub_chunks ::
  "ustring \<Rightarrow> ustring \<Rightarrow> content_object \<Rightarrow> ustring list \<Rightarrow> ustring list \<Rightarrow> metadata list \<Rightarrow>
   ustring list \<times> metadata list" where
  "add_sub_chunks file_id user_id obj [] chunks metadatas = (chunks, metadatas)"
| "add_sub_chunks file_id user_id obj (chunk # sub_chunks) chunks metadatas =
     add_sub_chunks file_id user_id obj sub_chunks (chunks @ [chunk])
       (metadatas @ [\<lparr>md_file_id = Some file_id, md_page = Some (page_of obj),
                       md_user_id = Some user_id,
                       md_chunk_index = Some (int (length (chunks @ [chunk])) - 1)\<rparr>])"

text \<open>The outer loop of lines 83 to 95; \<open>_split_text\<close> is called with its defaults.
  \<open>None\<close> is a call of \<open>_split_text\<close> that does not return.\<close>

fun build_chunks ::
  "runtime \<Rightarrow> ustring \<Rightarrow> ustring \<Rightarrow> content_object list \<Rightarrow> ustring list \<Rightarrow> metadata list \<Rightarrow>
   (ustring list \<times> metadata list) option" where
  "build_chunks rt file_id user_id [] chunks metadatas = Some (chunks, metadatas)"
| "build_chunks rt file_id user_id (obj # content_objects) chunks metadatas =
     (case split_text rt (co_text obj) 600 120 of
        None \<Rightarrow> None
      | Some sub_chunks \<Rightarrow>
          (case add_sub_chunks file_id user_id obj sub_chunks chunks metadatas of
             (chunks', metadatas') \<Rightarrow>
               build_chunks rt file_id user_id content_objects chunks' metadatas'))"

text \<open>\<open>process_document\<close>, lines 60 to 117, with the extraction of line 73 as a
  parameter. It returns the client after the call and either the exception raised or the
  value returned.\<close>

definition process_document ::
  "'c chroma \<Rightarrow> runtime \<Rightarrow> (ustring \<Rightarrow> content_object list) \<Rightarrow> (ustring \<rightharpoonup> 'c) option \<Rightarrow>
   ustring \<Rightarrow> ustring \<Rightarrow> ustring \<Rightarrow>
   ((ustring \<rightharpoonup> 'c) option \<times> (exn + ustring option)) option" where
  "process_document ch rt extract_with_metadata client file_path file_id user_id =
     (case client of
        None \<Rightarrow> Some (None, Inl (ValueError (ustr ''ChromaDB is not available'')))
      | Some collections \<Rightarrow>
          (let content_objects = extract_with_metadata file_path in
           if content_objects = [] then Some (Some collections, Inr None)
           else
             (case build_chunks rt file_id user_id content_objects [] [] of
                None \<Rightarrow> None
              | Some (chunks, metadatas) \<Rightarrow>
                  (let collection_name = process_document_collection_name user_id;
                       ids = map (\<lambda>i. file_id @ ustr ''_chunk_'' @ py_str_int (int i))
                               [0..<length chunks]
                   in case (case collections collection_name of
                              Some c \<Rightarrow> Inr c
                            | None \<Rightarrow> coll_create ch collection_name user_id) of
                        Inl e \<Rightarrow>
                          Some (Some collections,
                                Inl (ValueErrorFrom (ustr ''Failed to process document: '') e))
                      | Inr collection \<Rightarrow>
                          (case coll_add ch collection ids chunks metadatas of
                             Inl e \<Rightarrow>
                               Some (Some (collections(collection_name \<mapsto> collection)),
                                     Inl (ValueErrorFrom (ustr ''Failed to process document: '') e))
                           | Inr collection' \<Rightarrow>
                               Some (Some (collections(collection_name \<mapsto> collection')),
                                     Inr (Some (collection_name @ ustr '':'' @ file_id))))))))"

section \<open>A store for the examples\<close>

text \<open>
  A small store in the place of ChromaDB, for the examples only. A collection is the list
  of its chunks with their metadata; \<open>get\<close> returns the first \<open>limit\<close> chunks that match the
  filter; \<open>query\<close> returns the \<open>n_results\<close> matching chunks nearest to the query under a
  given distance between texts, and raises when \<open>n_results\<close> is not positive.
\<close>

definition where_matches :: "where_filter option \<Rightarrow> metadata \<Rightarrow> bool" where
  "where_matches flt m =
     (case flt of
        None \<Rightarrow> True
      | Some (FileIdEq f) \<Rightarrow> md_file_id m = Some f
      | Some (FileIdIn fs) \<Rightarrow> (case md_file_id m of None \<Rightarrow> False | Some f \<Rightarrow> f \<in> set fs))"

definition example_chroma :: "(ustring \<Rightarrow> ustring \<Rightarrow> real) \<Rightarrow> (ustring \<times> metadata) list chroma" where
  "example_chroma embed_distance =
     \<lparr>coll_create = (\<lambda>name user_id. Inr []),
      coll_add = (\<lambda>c ids docs metas. Inr (c @ zip docs metas)),
      coll_query = (\<lambda>c q n flt.
         if n \<le> 0 then Inl (StoreError (ustr ''Number of requested results cannot be negative, or zero.''))
         else (let hits = take (nat n) (sort_key (\<lambda>p. embed_distance q (fst p))
                                         (filter (\<lambda>p. where_matches flt (snd p)) c))
               in Inr \<lparr>qr_documents = Some [map fst hits],
                        qr_distances = Some [map (\<lambda>p. embed_distance q (fst p)) hits],
                        qr_metadatas = Some [map snd hits]\<rparr>)),
      coll_get = (\<lambda>c flt k.
         (let hits = take (nat k) (filter (\<lambda>p. where_matches flt (snd p)) c)
          in Inr \<lparr>gr_documents = Some (map fst hits), gr_metadatas = Some (map snd hits)\<rparr>))\<rparr>"

definition example_collection :: "(ustring \<times> metadata) list" where
  "example_collection =
     [(ustr ''invoice total 500'', example_meta (ustr ''f1'')),
      (ustr ''payment due'', example_meta (ustr ''f1'')),
      (ustr ''grand total'', example_meta (ustr ''f1''))]"

text \<open>Two distances between texts: every text far from every query, and every text
  near.\<close>

definition example_far :: "ustring \<Rightarrow> ustring \<Rightarrow> real" where
  "example_far q d = 5"

definition example_near :: "ustring \<Rightarrow> ustring \<Rightarrow> real" where
  "example_near q d = 1"

text \<open>An extraction that yields one unit of text.\<close>

definition example_extract :: "ustring \<Rightarrow> content_object list" where
  "example_extract file_path = [\<lparr>co_text = ustr ''secret plan'', co_page = None, co_page_label = None\<rparr>]"

section \<open>Completion (LLMService, llm_service.py)\<close>

text \<open>The \<open>ProviderType\<close> enumeration (models/llm_provider.py, lines 8 to 18).\<close>

datatype provider_type =
  OPENAI | ANTHROPIC | GOOGLE | GROQ | COHERE | MISTRAL | TOGETHER | CUSTOM | ZAI

text \<open>The fields of an \<open>LLMProvider\<close> that \<open>generate_response\<close> reads.\<close>

record provider =
  prov_type :: provider_type
  prov_api_key :: ustring
  prov_api_base_url :: "ustring option"

text \<open>An image attachment, a turn of the conversation history, and the dictionary that
  \<open>generate_response\<close> returns; \<open>error_type\<close> is a key that only the quota answer of
  line 155 has.\<close>

record image =
  img_data :: "nat list"
  img_mime_type :: ustring

record chat_turn =
  turn_role :: ustring
  turn_content :: ustring

record llm_response =
  resp_content :: ustring
  resp_model :: ustring
  resp_prompt_tokens :: int
  resp_completion_tokens :: int
  resp_total_tokens :: int
  resp_error_type :: "ustring option"

text \<open>
  The provider calls are external and parameters of the model. An exception is kept as
  its message \<open>str(e)\<close>, the only thing the handlers read (lines 100 and 146).
  \<open>google_generate_content api_key model prompt images\<close> stands for lines 124 to 136 and
  returns the response text; \<open>openai_chat_completions api_key base_url model prompt images\<close>
  stands for lines 162 to 191 and \<open>anthropic_messages api_key model prompt images\<close> for
  lines 203 to 242: the request, the status check and the reading of the content and of the
  usage counts. \<open>format_provider_type\<close> is how the f-string of line 97 prints a member of
  the enumeration, which depends on the Python version.
\<close>

record api_reply =
  reply_content :: ustring
  reply_usage :: "ustring \<rightharpoonup> int"

record llm_api =
  google_generate_content ::
    "ustring \<Rightarrow> ustring \<Rightarrow> ustring \<Rightarrow> image list option \<Rightarrow> ustring + ustring"
  openai_chat_completions ::
    "ustring \<Rightarrow> ustring \<Rightarrow> ustring \<Rightarrow> ustring \<Rightarrow> image list option \<Rightarrow> ustring + api_reply"
  anthropic_messages ::
    "ustring \<Rightarrow> ustring \<Rightarrow> ustring \<Rightarrow> image list option \<Rightarrow> ustring + api_reply"
  format_provider_type :: "provider_type \<Rightarrow> ustring"

text \<open>\<open>usage.get(k, dflt)\<close>.\<close>

definition usage_get :: "(ustring \<rightharpoonup> int) \<Rightarrow> ustring \<Rightarrow> int \<Rightarrow> int" where
  "usage_get usage k dflt = (case usage k of Some v \<Rightarrow> v | None \<Rightarrow> dflt)"

text \<open>Lines 48 to 67: the prompt. The persona text of lines 25 to 46 is the parameter
  \<open>system_prompt\<close>; code point 10 is the line feed. The history window is
  \<open>history[-8:]\<close>.\<close>

definition build_prompt ::
  "ustring \<Rightarrow> ustring \<Rightarrow> ustring list option \<Rightarrow> chat_turn list option \<Rightarrow> ustring" where
  "build_prompt system_prompt message context history =
     (let context_section =
            (case context of
               None \<Rightarrow> []
             | Some ctx \<Rightarrow>
                 if ctx \<noteq> [] then
                   [10, 10] @ ustr ''=== DOCUMENT CONTEXT ==='' @ [10]
                   @ py_join ([10] @ ustr ''---'' @ [10]) ctx
                   @ [10] @ ustr ''========================'' @ [10]
                 else []);
          history_section =
            (case history of
               None \<Rightarrow> []
             | Some h \<Rightarrow>
                 if h \<noteq> [] then
                   [10, 10] @ ustr ''=== RECENT CONVERSATION HISTORY ==='' @ [10]
                   @ concat (map (\<lambda>msg.
                        (if turn_role msg = ustr ''user'' then ustr ''User'' else ustr ''Assistant'')
                        @ ustr '': '' @ turn_content msg @ [10])
                      (py_slice h (- 8) (int (length h))))
                   @ ustr ''=================================='' @ [10]
                 else [])
      in system_prompt @ context_section @ history_section
         @ [10, 10] @ ustr ''USER QUESTION: '' @ message
         @ [10, 10] @ ustr ''SYNAI ASSISTANT:'')"

text \<open>\<open>_get_default_base_url\<close>, lines 110 to 118, and line 79:
  \<open>provider.api_base_url or cls._get_default_base_url(provider.provider_type)\<close>.\<close>

definition default_base_url :: "provider_type \<Rightarrow> ustring" where
  "default_base_url pt =
     (case pt of
        OPENAI \<Rightarrow> ustr ''https://api.openai.com/v1''
      | GROQ \<Rightarrow> ustr ''https://api.groq.com/openai/v1''
      | TOGETHER \<Rightarrow> ustr ''https://api.together.xyz/v1''
      | MISTRAL \<Rightarrow> ustr ''https://api.mistral.ai/v1''
      | ZAI \<Rightarrow> ustr ''https://api.z.ai/api/paas/v4''
      | _ \<Rightarrow> [])"

definition resolve_base_url :: "provider \<Rightarrow> ustring" where
  "resolve_base_url p =
     (case prov_api_base_url p of
        Some url \<Rightarrow> if url \<noteq> [] then url else default_base_url (prov_type p)
      | None \<Rightarrow> default_base_url (prov_type p))"

text \<open>The content of the quota answer (line 150), as code points.\<close>

definition quota_exceeded_message :: ustring where
  "quota_exceeded_message =
    [9888, 65039, 32, 42, 42, 81, 117, 111, 116, 97, 32, 69, 120, 99, 101, 101, 100, 101,
     100, 32, 40, 71, 111, 111, 103, 108, 101, 32, 65, 73, 41, 42, 42, 58, 32, 3586, 3629,
     3629, 3616, 3633, 3618, 3588, 3619, 3633, 3610, 32, 3650, 3588, 3623, 3605, 3634,
     3585, 3634, 3619, 3651, 3594, 3657, 3591, 3634, 3609, 3615, 3619, 3637, 3586, 3629,
     3591, 32, 71, 111, 111, 103, 108, 101, 32, 65, 73, 32, 3586, 3629, 3591, 3588, 3640,
     3603, 3648, 3605, 3655, 3617, 3649, 3621, 3657, 3623, 3651, 3609, 3586, 3603, 3632,
     3609, 3637, 3657, 32, 3650, 3611, 3619, 3604, 3619, 3629, 3626, 3633, 3585, 3588,
     3619, 3641, 3656, 32, 40, 3611, 3619, 3632, 3617, 3634, 3603, 32, 49, 32, 3609, 3634,
     3607, 3637, 41, 32, 3627, 3619, 3639, 3629, 3621, 3629, 3591, 3648, 3611, 3621, 3637,
     3656, 3618, 3609, 3652, 3611, 3651, 3594, 3657, 32, 80, 114, 111, 118, 105, 100, 101,
     114, 32, 3619, 3634, 3618, 3629, 3639, 3656, 3609, 3651, 3609, 3648, 3617, 3609, 3641,
     3648, 3621, 3639, 3629, 3585, 32, 77, 111, 100, 101, 108, 32, 3604, 3657, 3634, 3609,
     3610, 3609, 3588, 3619, 3633, 3610]"

text \<open>Line 147, and the dictionary of lines 149 to 156.\<close>

definition is_quota_error :: "ustring \<Rightarrow> bool" where
  "is_quota_error error_msg \<longleftrightarrow>
     py_in (ustr ''429'') error_msg \<or> py_in (ustr ''RESOURCE_EXHAUSTED'') error_msg"

definition quota_response :: "ustring \<Rightarrow> int \<Rightarrow> llm_response" where
  "quota_response model prompt_tokens =
     \<lparr>resp_content = quota_exceeded_message, resp_model = model,
      resp_prompt_tokens = prompt_tokens,
      resp_completion_tokens = 0,
      resp_total_tokens = prompt_tokens,
      resp_error_type = Some (ustr ''quota_exceeded'')\<rparr>"

text \<open>\<open>_generate_google\<close>, lines 121 to 157: a quota error becomes an answer, any other
  exception is raised again.\<close>

definition generate_google ::
  "llm_api \<Rightarrow> ustring \<Rightarrow> ustring \<Rightarrow> ustring \<Rightarrow> int \<Rightarrow> image list option \<Rightarrow>
   ustring + llm_response" where
  "generate_google api api_key model prompt prompt_tokens images =
     (case google_generate_content api api_key model prompt images of
        Inr response_text \<Rightarrow>
          (let completion_tokens = int (length response_text) div 4
           in Inr \<lparr>resp_content = response_text, resp_model = model,
                    resp_prompt_tokens = prompt_tokens,
                    resp_completion_tokens = completion_tokens,
                    resp_total_tokens = prompt_tokens + completion_tokens,
                    resp_error_type = None\<rparr>)
      | Inl error_msg \<Rightarrow>
          if is_quota_error error_msg then Inr (quota_response model prompt_tokens)
          else Inl error_msg)"

text \<open>\<open>_generate_openai_compatible\<close> (lines 160 to 199) and \<open>_generate_anthropic\<close>
  (lines 201 to 249): no handler, an exception of the call leaves the function.\<close>

definition generate_openai_compatible ::
  "llm_api \<Rightarrow> ustring \<Rightarrow> ustring \<Rightarrow> ustring \<Rightarrow> ustring \<Rightarrow> int \<Rightarrow> image list option \<Rightarrow>
   ustring + llm_response" where
  "generate_openai_compatible api api_key base_url model prompt prompt_tokens images =
     (case openai_chat_completions api api_key base_url model prompt images of
        Inl e \<Rightarrow> Inl e
      | Inr data \<Rightarrow>
          (let content = reply_content data; usage = reply_usage data
           in Inr \<lparr>resp_content = content, resp_model = model,
                    resp_prompt_tokens = usage_get usage (ustr ''prompt_tokens'') prompt_tokens,
                    resp_completion_tokens =
                      usage_get usage (ustr ''completion_tokens'') (int (length content) div 4),
                    resp_total_tokens =
                      usage_get usage (ustr ''total_tokens'')
                        (prompt_tokens + int (length content) div 4),
                    resp_error_type = None\<rparr>))"

definition generate_anthropic ::
  "llm_api \<Rightarrow> ustring \<Rightarrow> ustring \<Rightarrow> ustring \<Rightarrow> int \<Rightarrow> image list option \<Rightarrow>
   ustring + llm_response" where
  "generate_anthropic api api_key model prompt prompt_tokens images =
     (case anthropic_messages api api_key model prompt images of
        Inl e \<Rightarrow> Inl e
      | Inr data \<Rightarrow>
          (let content = reply_content data; usage = reply_usage data
           in Inr \<lparr>resp_content = content, resp_model = model,
                    resp_prompt_tokens = usage_get usage (ustr ''input_tokens'') prompt_tokens,
                    resp_completion_tokens =
                      usage_get usage (ustr ''output_tokens'') (int (length content) div 4),
                    resp_total_tokens =
                      usage_get usage (ustr ''input_tokens'') 0
                      + usage_get usage (ustr ''output_tokens'') 0,
                    resp_error_type = None\<rparr>))"

text \<open>The list of line 76.\<close>

definition is_openai_compatible :: "provider_type \<Rightarrow> bool" where
  "is_openai_compatible pt \<longleftrightarrow> pt \<in> set [OPENAI, GROQ, TOGETHER, MISTRAL, CUSTOM, ZAI]"

text \<open>The \<open>try\<close> block of lines 72 to 97.\<close>

definition call_provider ::
  "llm_api \<Rightarrow> provider \<Rightarrow> ustring \<Rightarrow> ustring \<Rightarrow> int \<Rightarrow> image list option \<Rightarrow>
   ustring + llm_response" where
  "call_provider api p model full_prompt prompt_tokens images =
     (if prov_type p = GOOGLE then
        generate_google api (prov_api_key p) model full_prompt prompt_tokens images
      else if is_openai_compatible (prov_type p) then
        (let base_url = resolve_base_url p
         in if base_url = [] \<and> prov_type p = CUSTOM
            then Inl (ustr ''Custom provider requires a Base URL'')
            else generate_openai_compatible api (prov_api_key p) base_url model full_prompt
                   prompt_tokens images)
      else if prov_type p = ANTHROPIC then
        generate_anthropic api (prov_api_key p) model full_prompt prompt_tokens images
      else Inl (ustr ''Provider '' @ format_provider_type api (prov_type p)
                @ ustr '' is not yet implemented in LLMService''))"

text \<open>The dictionary of the handler, lines 101 to 107. Code point 10060 is the cross mark
  that opens the message.\<close>

definition error_response :: "ustring \<Rightarrow> int \<Rightarrow> ustring \<Rightarrow> llm_response" where
  "error_response model prompt_tokens error_text =
     \<lparr>resp_content = [10060] @ ustr '' **Error**: '' @ error_text, resp_model = model,
      resp_prompt_tokens = prompt_tokens,
      resp_completion_tokens = 0,
      resp_total_tokens = prompt_tokens,
      resp_error_type = None\<rparr>"

text \<open>\<open>generate_response\<close>, lines 12 to 107. The parameter \<open>file_name\<close> of the source
  is not used by it and is left out.\<close>

definition generate_response ::
  "llm_api \<Rightarrow> ustring \<Rightarrow> ustring \<Rightarrow> provider \<Rightarrow> ustring \<Rightarrow> ustring list option \<Rightarrow>
   chat_turn list option \<Rightarrow> image list option \<Rightarrow> ustring + llm_response" where
  "generate_response api system_prompt message p model context history images =
     (let full_prompt = build_prompt system_prompt message context history;
          prompt_tokens = int (length full_prompt) div 4
      in case call_provider api p model full_prompt prompt_tokens images of
           Inr response \<Rightarrow> Inr response
         | Inl error_text \<Rightarrow> Inr (error_response model prompt_tokens error_text))"


text \<open>The delegated provider call raises with message \<open>msg\<close>: the call of the family
  of the provider is the one made, and it raises.\<close>

definition delegate_raises ::
  "llm_api \<Rightarrow> provider \<Rightarrow> ustring \<Rightarrow> ustring \<Rightarrow> image list option \<Rightarrow> ustring \<Rightarrow> bool" where
  "delegate_raises api p model prompt images msg \<longleftrightarrow>
     (prov_type p = GOOGLE
        \<and> google_generate_content api (prov_api_key p) model prompt images = Inl msg)
     \<or> (is_openai_compatible (prov_type p)
        \<and> \<not> (resolve_base_url p = [] \<and> prov_type p = CUSTOM)
        \<and> openai_chat_completions api (prov_api_key p) (resolve_base_url p) model prompt images
            = Inl msg)
     \<or> (prov_type p = ANTHROPIC
        \<and> anthropic_messages api (prov_api_key p) model prompt images = Inl msg)"

text \<open>Providers for the examples: the Google call fails on its quota, the others time
  out.\<close>

definition example_api :: llm_api where
  "example_api =
     \<lparr>google_generate_content = (\<lambda>api_key model prompt images. Inl (ustr ''429 Too Many Requests'')),
      openai_chat_completions = (\<lambda>api_key base_url model prompt images. Inl (ustr ''timed out'')),
      anthropic_messages = (\<lambda>api_key model prompt images. Inl (ustr ''timed out'')),
      format_provider_type = (\<lambda>pt. ustr ''cohere'')\<rparr>"

definition example_provider :: "provider_type \<Rightarrow> provider" where
  "example_provider pt = \<lparr>prov_type = pt, prov_api_key = ustr ''key'', prov_api_base_url = None\<rparr>"

section \<open>Properties of the chunker\<close>

lemma sorted_le_last: "sorted xs \<Longrightarrow> (x::nat) \<in> set xs \<Longrightarrow> x \<le> last xs"
  by (induction xs) auto

lemma rfind_cases:
  "py_rfind s c st en = - 1 \<and> (\<forall>i. slice_bound st (length s) \<le> i \<and> i < slice_bound en (length s) \<longrightarrow> s ! i \<noteq> c)
   \<or> (\<exists>i. py_rfind s c st en = int i \<and> slice_bound st (length s) \<le> i \<and> i < slice_bound en (length s) \<and> s ! i = c
        \<and> (\<forall>j. i < j \<and> j < slice_bound en (length s) \<longrightarrow> s ! j \<noteq> c))"
proof -
  define a where "a = slice_bound st (length s)"
  define b where "b = slice_bound en (length s)"
  define hits where "hits = filter (\<lambda>i. s ! i = c) [a..<b]"
  have r: "py_rfind s c st en = (if hits = [] then - 1 else int (last hits))"
    by (simp add: py_rfind_def a_def b_def hits_def Let_def)
  show ?thesis
  proof (cases "hits = []")
    case True
    then have "\<forall>i. a \<le> i \<and> i < b \<longrightarrow> s ! i \<noteq> c"
      by (auto simp: hits_def filter_empty_conv)
    with True r show ?thesis by (simp add: a_def b_def)
  next
    case False
    then have m: "last hits \<in> set hits" by simp
    then have p: "a \<le> last hits" "last hits < b" "s ! last hits = c"
      by (auto simp: hits_def)
    have srt: "sorted hits" by (auto simp: hits_def intro: sorted_wrt_filter)
    have "\<forall>j. last hits < j \<and> j < b \<longrightarrow> s ! j \<noteq> c"
    proof (intro allI impI notI)
      fix j assume j: "last hits < j \<and> j < b" and "s ! j = c"
      with p have "j \<in> set hits" by (auto simp: hits_def)
      with srt have "j \<le> last hits" by (rule sorted_le_last)
      with j show False by simp
    qed
    with False r p show ?thesis unfolding a_def b_def by auto
  qed
qed

lemma window_end_cases:
  assumes "0 \<le> start" "0 \<le> chunk_size"
  shows "window_end text chunk_size start = start + chunk_size
       \<or> (start + chunk_size div 2 < window_end text chunk_size start
          \<and> window_end text chunk_size start < start + chunk_size)"
proof (cases "start + chunk_size < int (length text)")
  case False
  then show ?thesis by (simp add: window_end_def)
next
  case True
  have b: "slice_bound (start + chunk_size) (length text) = nat (start + chunk_size)"
    using True assms by (simp add: slice_bound_def)
  from rfind_cases [of "text" 32 start "start + chunk_size"] b
  have "py_rfind text 32 start (start + chunk_size) < start + chunk_size"
    using assms by auto
  then show ?thesis using True by (auto simp: window_end_def Let_def)
qed

lemma window_end_step:
  "start + chunk_size div 2 < window_end text chunk_size start \<or> window_end text chunk_size start = start + chunk_size"
  by (auto simp: window_end_def Let_def)

lemma length_py_slice:
  assumes "0 \<le> start" "0 \<le> end"
  shows "int (length (py_slice s start end)) \<le> max 0 (end - start)"
  using assms by (auto simp: py_slice_def slice_bound_def Let_def)

lemma split_loop_total:
  assumes "1 \<le> chunk_size" "0 \<le> overlap" "overlap \<le> chunk_size div 2"
  shows "0 \<le> start \<Longrightarrow> \<forall>c\<in>set chunks. int (length c) \<le> chunk_size \<Longrightarrow>
     \<exists>r. split_loop text chunk_size overlap start chunks = Some r \<and> (\<forall>c\<in>set r. int (length c) \<le> chunk_size)"
proof (induction "nat (int (length text) - start)" arbitrary: start chunks rule: less_induct)
  case less
  show ?case
  proof (cases "start < int (length text)")
    case False
    then show ?thesis using less.prems by (subst split_loop.simps) simp
  next
    case True
    define e where "e = window_end text chunk_size start"
    define chunk where "chunk = py_slice text start e"
    define chunks' where "chunks' = (if py_strip chunk \<noteq> [] then chunks @ [chunk] else chunks)"
    have e1: "e \<le> start + chunk_size" and e2: "start + chunk_size div 2 < e \<or> e = start + chunk_size"
      using window_end_cases [of start chunk_size "text"] window_end_step [of start chunk_size "text"] less.prems assms
      by (auto simp: e_def)
    have adv: "start < e - overlap" using e2 assms by linarith
    have h: "0 \<le> chunk_size div 2" using assms by simp
    have "0 \<le> e" using e2 h less.prems assms by linarith
    then have "int (length chunk) \<le> chunk_size"
      using length_py_slice [of start e "text"] less.prems e1 assms by (simp add: chunk_def)
    then have inv: "\<forall>c\<in>set chunks'. int (length c) \<le> chunk_size"
      using less.prems by (simp add: chunks'_def)
    have "nat (int (length text) - (e - overlap)) < nat (int (length text) - start)"
      using adv True by linarith
    from less.hyps [OF this _ inv] adv less.prems
    obtain r where "split_loop text chunk_size overlap (e - overlap) chunks' = Some r"
      "\<forall>c\<in>set r. int (length c) \<le> chunk_size" by auto
    then show ?thesis using True
      unfolding chunks'_def chunk_def e_def
      by (subst split_loop.simps) (simp add: Let_def)
  qed
qed

lemma split_loop_stuck:
  assumes "split_loop t cs ov st ch = Some r"
  shows "\<not> (t = [97] \<and> cs = 1 \<and> ov = 1 \<and> st = 0)"
proof (rule split_loop.raw_induct
    [where P = "\<lambda>t cs ov st ch r. \<not> (t = [97] \<and> cs = 1 \<and> ov = 1 \<and> st = 0)", OF _ assms])
  fix f :: "ustring \<Rightarrow> int \<Rightarrow> int \<Rightarrow> int \<Rightarrow> ustring list \<Rightarrow> ustring list option"
  fix t cs ov st ch r
  assume IH: "\<And>t cs ov st ch r. f t cs ov st ch = Some r \<Longrightarrow> \<not> (t = [97] \<and> cs = 1 \<and> ov = 1 \<and> st = 0)"
    and eq: "(if st < int (length t) then
        (let end = window_end t cs st; chunk = py_slice t st end
         in f t cs ov (end - ov) (if py_strip chunk \<noteq> [] then ch @ [chunk] else ch))
      else Some ch) = Some r"
  show "\<not> (t = [97] \<and> cs = 1 \<and> ov = 1 \<and> st = 0)"
  proof
    assume a: "t = [97] \<and> cs = 1 \<and> ov = 1 \<and> st = 0"
    have "window_end [97] 1 0 = 1" by (simp add: window_end_def)
    with eq a have "\<exists>ch'. f [97] 1 1 0 ch' = Some r" by (auto simp: Let_def)
    then show False using IH by blast
  qed
qed

lemma split_loop_diverges: "split_loop [97] 1 1 0 chunks = None"
  using split_loop_stuck [of "[97]" 1 1 0 chunks] by (cases "split_loop [97] 1 1 0 chunks") auto


lemma length_strip_snoc: "length (py_strip (xs @ [32])) \<le> length xs"
proof (cases "\<forall>x\<in>set xs. py_isspace x")
  case True
  then show ?thesis by (simp add: py_strip_def dropWhile_append py_isspace_def)
next
  case False
  have "length (dropWhile py_isspace (rev (dropWhile py_isspace xs))) \<le> length (rev (dropWhile py_isspace xs))"
    by (rule length_dropWhile_le)
  also have "\<dots> \<le> length xs" by (simp add: length_dropWhile_le)
  finally show ?thesis using False
    by (simp add: py_strip_def dropWhile_append py_isspace_def)
qed

lemma thai_pack_ok:
  assumes "set sents \<subseteq> set S"
    and "cur = [] \<or> int (length (py_strip cur)) \<le> cs
         \<or> (\<exists>sent\<in>set S. cs < int (length sent) \<and> py_strip cur = py_strip (sent @ [32]))"
    and "\<forall>c\<in>set chunks. int (length c) \<le> cs \<or> (\<exists>sent\<in>set S. cs < int (length sent) \<and> c = py_strip (sent @ [32]))"
  shows "\<forall>c\<in>set (thai_pack cs sents cur chunks).
           int (length c) \<le> cs \<or> (\<exists>sent\<in>set S. cs < int (length sent) \<and> c = py_strip (sent @ [32]))"
  using assms
proof (induction sents arbitrary: cur chunks)
  case Nil
  then show ?case by auto
next
  case (Cons sent sents)
  let ?ok = "\<lambda>c. int (length c) \<le> cs \<or> (\<exists>sent\<in>set S. cs < int (length sent) \<and> c = py_strip (sent @ [32]))"
  from Cons.prems have sub: "set sents \<subseteq> set S" and mem: "sent \<in> set S" by auto
  show ?case
  proof (cases "int (length cur) + int (length sent) \<le> cs")
    case True
    have "length (py_strip ((cur @ sent) @ [32])) \<le> length (cur @ sent)"
      by (rule length_strip_snoc)
    with True have "int (length (py_strip (cur @ sent @ [32]))) \<le> cs" by simp
    with Cons.IH [OF sub _ Cons.prems(3), of "cur @ sent @ [32]"] True
    show ?thesis by simp
  next
    case False
    have new: "int (length (py_strip (sent @ [32]))) \<le> cs
         \<or> (\<exists>s\<in>set S. cs < int (length s) \<and> py_strip (sent @ [32]) = py_strip (s @ [32]))"
    proof (cases "int (length sent) \<le> cs")
      case True
      with length_strip_snoc [of sent] show ?thesis by linarith
    next
      case False
      then have "cs < int (length sent)" by simp
      with mem have "\<exists>s\<in>set S. cs < int (length s) \<and> py_strip (sent @ [32]) = py_strip (s @ [32])"
        by blast
      then show ?thesis ..
    qed
    have old: "\<forall>c\<in>set (if cur \<noteq> [] then chunks @ [py_strip cur] else chunks). ?ok c"
      using Cons.prems(2,3) by auto
    from Cons.IH [OF sub _ old, of "sent @ [32]"] new False
    show ?thesis by simp
  qed
qed

text \<open>
  Claim C6. With \<open>chunk_size = 600\<close> (and the default overlap 120) \<open>_split_text\<close>
  returns, and every chunk it emits has at most 600 characters, except that in the Thai
  branch a chunk may be one sentence that is itself longer than 600 characters.
\<close>

theorem chunk_size_invariant:
  "\<exists>chunks. split_text rt t 600 120 = Some chunks \<and> (\<forall>c\<in>set chunks. chunk_within rt t 600 c)"
proof (cases "t \<noteq> [] \<and> has_thai t \<and> HAS_PYTHAINLP rt")
  case True
  have "\<forall>c\<in>set (thai_pack 600 (sent_tokenize rt t) [] []).
      int (length c) \<le> 600 \<or> (\<exists>sent\<in>set (sent_tokenize rt t). 600 < int (length sent) \<and> c = py_strip (sent @ [32]))"
    by (rule thai_pack_ok) auto
  with True show ?thesis
    by (auto simp: split_text_def chunk_within_def list_ex_iff)
next
  case False
  have "\<exists>r. split_loop (py_join [32] (py_split t)) 600 120 0 [] = Some r \<and> (\<forall>c\<in>set r. int (length c) \<le> 600)"
    by (rule split_loop_total) auto
  with False show ?thesis
    by (auto simp: split_text_def chunk_within_def)
qed

lemma split_loop_step:
  "start < int (length t) \<Longrightarrow>
   split_loop t chunk_size overlap start chunks =
     split_loop t chunk_size overlap (window_end t chunk_size start - overlap)
       (if py_strip (py_slice t start (window_end t chunk_size start)) \<noteq> []
        then chunks @ [py_slice t start (window_end t chunk_size start)] else chunks)"
  by (subst split_loop.simps) (simp add: Let_def)

lemma split_loop_done:
  "\<not> start < int (length t) \<Longrightarrow> split_loop t chunk_size overlap start chunks = Some chunks"
  by (subst split_loop.simps) simp

theorem chunk_size_invariant_witness:
  "split_text example_runtime [3585, 3586, 32, 3587] 600 120 = Some [[3585, 3586, 32, 3587]]
   \<and> chunk_within example_runtime [3585, 3586, 32, 3587] 600 [3585, 3586, 32, 3587]"
  using chunk_size_invariant [of example_runtime "[3585, 3586, 32, 3587]"]
  by (simp add: split_text_def has_thai_def example_runtime_def py_split_def py_isspace_def py_strip_def)

text \<open>
  Claim C10. With the defaults 600 and 120 \<open>_split_text\<close> returns for every text: each
  iteration moves the window start forward by more than \<open>600 div 2 - 120\<close>, which is
  positive. For other parameters the loop may run forever: with \<open>chunk_size = 1\<close> and
  \<open>overlap = 1\<close> it never returns on the one-letter text \<open>a\<close>.
\<close>

theorem default_split_terminates:
  "(\<exists>chunks. split_text rt t 600 120 = Some chunks)
   \<and> start + (600 div 2 - 120) < window_end t 600 start - 120
   \<and> (0::int) < 600 div 2 - 120
   \<and> split_text rt [97] 1 1 = None"
proof (intro conjI)
  show "\<exists>chunks. split_text rt t 600 120 = Some chunks"
  proof (cases "t \<noteq> [] \<and> has_thai t \<and> HAS_PYTHAINLP rt")
    case True
    then show ?thesis by (simp add: split_text_def)
  next
    case False
    have "\<exists>r. split_loop (py_join [32] (py_split t)) 600 120 0 [] = Some r \<and> (\<forall>c\<in>set r. int (length c) \<le> 600)"
      by (rule split_loop_total) auto
    with False show ?thesis by (auto simp: split_text_def)
  qed
  show "start + (600 div 2 - 120) < window_end t 600 start - 120"
    using window_end_step [of start 600 t] by auto
  show "(0::int) < 600 div 2 - 120" by simp
  show "split_text rt [97] 1 1 = None"
    by (simp add: split_text_def has_thai_def py_split_def py_isspace_def split_loop_diverges)
qed


text \<open>
  Claim C7, as amended. In the default branch, a window that starts at \<open>start\<close> inside
  the text is followed by the window that starts at its right edge minus \<open>overlap\<close>. The
  right edge is \<open>start + chunk_size\<close> (the hard cut, and then the next start is
  \<open>start + (chunk_size - overlap)\<close>) unless the window ends before the end of the text and
  holds a space strictly later than \<open>chunk_size div 2\<close> into the window; then the right
  edge is the last such space.
\<close>

theorem window_stepping:
  assumes "0 \<le> start" "0 \<le> chunk_size" "start < int (length t)"
  shows "split_loop t chunk_size overlap start chunks =
           split_loop t chunk_size overlap (window_end t chunk_size start - overlap)
             (if py_strip (py_slice t start (window_end t chunk_size start)) \<noteq> []
              then chunks @ [py_slice t start (window_end t chunk_size start)] else chunks)
     \<and> (if start + chunk_size < int (length t)
            \<and> (\<exists>i. start + chunk_size div 2 < int i \<and> int i < start + chunk_size \<and> t ! i = 32)
        then (\<exists>i. window_end t chunk_size start = int i \<and> t ! i = 32
                 \<and> start + chunk_size div 2 < int i \<and> int i < start + chunk_size
                 \<and> (\<forall>j. i < j \<and> int j < start + chunk_size \<longrightarrow> t ! j \<noteq> 32))
        else window_end t chunk_size start = start + chunk_size)"
proof (intro conjI)
  show "split_loop t chunk_size overlap start chunks =
           split_loop t chunk_size overlap (window_end t chunk_size start - overlap)
             (if py_strip (py_slice t start (window_end t chunk_size start)) \<noteq> []
              then chunks @ [py_slice t start (window_end t chunk_size start)] else chunks)"
    using assms(3) by (rule split_loop_step)
next
  let ?e = "start + chunk_size"
  let ?h = "start + chunk_size div 2"
  let ?C = "\<exists>i. ?h < int i \<and> int i < ?e \<and> t ! i = 32"
  have h: "start \<le> ?h" using assms by simp
  show "if ?e < int (length t) \<and> ?C
        then (\<exists>i. window_end t chunk_size start = int i \<and> t ! i = 32
                 \<and> ?h < int i \<and> int i < ?e
                 \<and> (\<forall>j. i < j \<and> int j < ?e \<longrightarrow> t ! j \<noteq> 32))
        else window_end t chunk_size start = ?e"
  proof (cases "?e < int (length t)")
    case False
    then show ?thesis by (simp add: window_end_def)
  next
    case True
    have a: "slice_bound start (length t) = nat start"
      using assms by (simp add: slice_bound_def)
    have b: "slice_bound ?e (length t) = nat ?e"
      using True assms by (simp add: slice_bound_def)
    from rfind_cases [of t 32 start ?e]
    consider (none) "py_rfind t 32 start ?e = - 1" "\<forall>i. nat start \<le> i \<and> i < nat ?e \<longrightarrow> t ! i \<noteq> 32"
      | (hit) i where "py_rfind t 32 start ?e = int i" "nat start \<le> i" "i < nat ?e" "t ! i = 32"
          "\<forall>j. i < j \<and> j < nat ?e \<longrightarrow> t ! j \<noteq> 32"
      unfolding a b by blast
    then show ?thesis
    proof cases
      case none
      have "\<not> ?C"
      proof
        assume ?C
        then obtain i where "?h < int i" "int i < ?e" "t ! i = 32" by blast
        moreover from this h have "nat start \<le> i" "i < nat ?e" by linarith+
        ultimately show False using none(2) by blast
      qed
      then have ncond: "\<not> (?e < int (length t) \<and> ?C)" by blast
      have w: "window_end t chunk_size start = ?e"
        using none(1) True by (simp add: window_end_def)
      show ?thesis unfolding if_not_P [OF ncond] by (rule w)
    next
      case hit
      show ?thesis
      proof (cases "?h < int i")
        case True
        have w: "window_end t chunk_size start = int i"
          using hit(1) True \<open>?e < int (length t)\<close> by (simp add: window_end_def)
        have lt: "int i < ?e" using hit(3) by linarith
        have later: "\<forall>j. i < j \<and> int j < ?e \<longrightarrow> t ! j \<noteq> 32"
          using hit(5) by (simp add: nat_less_iff zless_nat_eq_int_zless)
        have "?C" using True lt hit(4) by blast
        with \<open>?e < int (length t)\<close> have cond: "?e < int (length t) \<and> ?C" by blast
        have ex: "\<exists>i. window_end t chunk_size start = int i \<and> t ! i = 32
                 \<and> ?h < int i \<and> int i < ?e
                 \<and> (\<forall>j. i < j \<and> int j < ?e \<longrightarrow> t ! j \<noteq> 32)"
          using w hit(4) True lt later by blast
        show ?thesis unfolding if_P [OF cond] by (rule ex)
      next
        case False
        have w: "window_end t chunk_size start = ?e"
          using hit(1) False \<open>?e < int (length t)\<close> by (simp add: window_end_def)
        have "\<not> ?C"
        proof
          assume ?C
          then obtain j where j: "?h < int j" "int j < ?e" "t ! j = 32" by blast
          with False have "i < j" by linarith
          moreover have "j < nat ?e" using j(2) by linarith
          ultimately show False using hit(5) j(3) by blast
        qed
        then have ncond: "\<not> (?e < int (length t) \<and> ?C)" by blast
        show ?thesis unfolding if_not_P [OF ncond] by (rule w)
      qed
    qed
  qed
qed

theorem window_stepping_witness:
  "(0::int) \<le> 0 \<and> (0::int) \<le> 10 \<and> 0 < int (length (ustr ''aaaaaaa bbbbbbbbbbbb''))
   \<and> split_loop (ustr ''aaaaaaa bbbbbbbbbbbb'') 10 2 0 [] =
       split_loop (ustr ''aaaaaaa bbbbbbbbbbbb'') 10 2 5 [ustr ''aaaaaaa'']
   \<and> window_end (ustr ''aaaaaaa bbbbbbbbbbbb'') 10 0 = 7"
  using window_stepping [of 0 10 "ustr ''aaaaaaa bbbbbbbbbbbb''" 2 "[]"]
  by (simp add: ustr_def window_end_def py_rfind_def slice_bound_def py_slice_def py_strip_def py_isspace_def Let_def)

text \<open>
  The claim as stated fails. For the text \<open>aaaaaaa bbbbbbbbbbbb\<close> with
  \<open>chunk_size = 10\<close> and \<open>overlap = 2\<close> the first window is cut at the space, index 7,
  and the second window starts at 5, not at \<open>0 + (10 - 2)\<close>. For
  \<open>aaaaa bbbbbbbbbbbbbb\<close> the space lies exactly \<open>chunk_size / 2\<close> into the window
  and the edge is not backed off to it.
\<close>

theorem window_stepping_counterexample:
  "window_end (ustr ''aaaaaaa bbbbbbbbbbbb'') 10 0 - 2 \<noteq> 0 + (10 - 2)
   \<and> ustr ''aaaaa bbbbbbbbbbbbbb'' ! 5 = 32
   \<and> window_end (ustr ''aaaaa bbbbbbbbbbbbbb'') 10 0 = 10"
  by (simp add: ustr_def window_end_def py_rfind_def slice_bound_def Let_def)

section \<open>Properties of the keyword re-scoring\<close>

lemma match_ratio_pos: "0 < match_ratio rt query doc \<Longrightarrow> target_words rt query \<noteq> {}"
  by (auto simp: match_ratio_def Let_def)

text \<open>
  Claim C2, as amended. With pythainlp, a candidate at distance \<open>d \<ge> 0\<close> whose overlap
  ratio \<open>r\<close> with the query is positive is rescored to
  \<open>max 0.01 (d - min d (r * 0.9))\<close>; without pythainlp, a candidate of which
  \<open>foundCount > 0\<close> query words occur in the document is rescored to
  \<open>max 0.01 (d - min 0.5 (foundCount / len(query_words) * 0.6))\<close>. In both branches the
  result is at least 0.01 and at most \<open>max d 0.01\<close>, hence at most \<open>d\<close> when
  \<open>d \<ge> 0.01\<close>.
\<close>

theorem keyword_rescoring_bound:
  "(HAS_PYTHAINLP rt \<and> 0 \<le> d \<and> 0 < match_ratio rt query doc \<longrightarrow>
      rescore rt query doc d = max 0.01 (d - min d (match_ratio rt query doc * 0.9))
      \<and> 0.01 \<le> rescore rt query doc d
      \<and> rescore rt query doc d \<le> max d 0.01
      \<and> (0.01 \<le> d \<longrightarrow> rescore rt query doc d \<le> d))
   \<and> (\<not> HAS_PYTHAINLP rt \<and> 0 \<le> d \<and> 0 < found_count rt query doc \<longrightarrow>
      rescore rt query doc d =
        max 0.01 (d - min 0.5 (real (found_count rt query doc)
                               / real (length (query_words_basic rt query)) * 0.6))
      \<and> 0.01 \<le> rescore rt query doc d
      \<and> rescore rt query doc d \<le> max d 0.01
      \<and> (0.01 \<le> d \<longrightarrow> rescore rt query doc d \<le> d))"
proof (intro conjI impI)
  assume a: "HAS_PYTHAINLP rt \<and> 0 \<le> d \<and> 0 < match_ratio rt query doc"
  then have tw: "target_words rt query \<noteq> {}" by (auto dest: match_ratio_pos)
  with a show eq: "rescore rt query doc d = max 0.01 (d - min d (match_ratio rt query doc * 0.9))"
    by (simp add: rescore_def Let_def)
  show "0.01 \<le> rescore rt query doc d" unfolding eq by simp
  have b: "0 \<le> min d (match_ratio rt query doc * 0.9)" using a by simp
  then show "rescore rt query doc d \<le> max d 0.01" unfolding eq by linarith
  { assume "0.01 \<le> d" then show "rescore rt query doc d \<le> d" using b unfolding eq by linarith }
next
  assume a: "\<not> HAS_PYTHAINLP rt \<and> 0 \<le> d \<and> 0 < found_count rt query doc"
  then have qw: "query_words_basic rt query \<noteq> []" by (auto simp: found_count_def)
  with a show eq: "rescore rt query doc d =
        max 0.01 (d - min 0.5 (real (found_count rt query doc)
                               / real (length (query_words_basic rt query)) * 0.6))"
    by (simp add: rescore_def Let_def)
  have b: "0 \<le> min 0.5 (real (found_count rt query doc)
                               / real (length (query_words_basic rt query)) * 0.6)" by simp
  show "0.01 \<le> rescore rt query doc d" unfolding eq by simp
  show "rescore rt query doc d \<le> max d 0.01" using b unfolding eq by linarith
  { assume "0.01 \<le> d" then show "rescore rt query doc d \<le> d" using b unfolding eq by linarith }
qed

lemma ex_tw: "target_words example_runtime (ustr ''ab'') = {ustr ''ab''}"
  by (auto simp: target_words_def example_runtime_def ascii_lower_def ustr_def py_split_def py_isspace_def)

lemma ex_mr: "match_ratio example_runtime (ustr ''ab'') (ustr ''ab'') = 1"
  by (simp add: match_ratio_def ex_tw Let_def) (simp add: example_runtime_def ascii_lower_def ustr_def py_split_def py_isspace_def)

lemma ex_fc: "found_count example_runtime_basic (ustr ''ab'') (ustr ''ab'') = 1"
  "query_words_basic example_runtime_basic (ustr ''ab'') = [ustr ''ab'']"
  by (simp_all add: found_count_def query_words_basic_def example_runtime_basic_def example_runtime_def ascii_lower_def ustr_def py_split_def py_isspace_def)

text \<open>
  The claim as stated fails. At \<open>d = 0\<close> with overlap ratio 1 the rescored distance is
  0.01, above \<open>d\<close>. Without pythainlp, at \<open>d = 1\<close> with every query word found the
  rescored distance is 0.5, not \<open>max 0.01 (1 - min 1 (1 * 0.9))\<close>.
\<close>

theorem keyword_rescoring_bound_counterexample:
  "0 < match_ratio example_runtime (ustr ''ab'') (ustr ''ab'')
   \<and> \<not> rescore example_runtime (ustr ''ab'') (ustr ''ab'') 0 \<le> 0
   \<and> \<not> HAS_PYTHAINLP example_runtime_basic
   \<and> real (found_count example_runtime_basic (ustr ''ab'') (ustr ''ab''))
        / real (length (query_words_basic example_runtime_basic (ustr ''ab''))) = 1
   \<and> rescore example_runtime_basic (ustr ''ab'') (ustr ''ab'') 1 \<noteq> max 0.01 (1 - min 1 (1 * 0.9))"
  by (simp add: rescore_def ex_mr ex_tw ex_fc Let_def) (simp add: example_runtime_basic_def example_runtime_def)

theorem keyword_rescoring_bound_witness:
  "HAS_PYTHAINLP example_runtime \<and> (0::real) \<le> 1 \<and> 0 < match_ratio example_runtime (ustr ''ab'') (ustr ''ab'')
   \<and> rescore example_runtime (ustr ''ab'') (ustr ''ab'') 1 = 1 / 10
   \<and> \<not> HAS_PYTHAINLP example_runtime_basic \<and> 0 < found_count example_runtime_basic (ustr ''ab'') (ustr ''ab'')
   \<and> rescore example_runtime_basic (ustr ''ab'') (ustr ''ab'') 1 = 1 / 2"
  using keyword_rescoring_bound [of example_runtime 1 "ustr ''ab''" "ustr ''ab''"]
    keyword_rescoring_bound [of example_runtime_basic 1 "ustr ''ab''" "ustr ''ab''"]
  by (simp add: ex_mr ex_fc) (simp add: example_runtime_basic_def example_runtime_def)

section \<open>Properties of the citation ranking\<close>








lemma relevance_score_eq:
  "1 + d * 0.35 \<noteq> 0 \<Longrightarrow> relevance_score b d = Inr (py_round3 (claimed_score b d))"
  by (simp add: relevance_score_def claimed_score_def Let_def)








lemma map_fst_dict_set:
  "map fst (dict_set u k v) = (if k \<in> fst ` set u then map fst u else map fst u @ [k])"
  by (induction u k v rule: dict_set.induct) auto

lemma map_of_dict_set: "map_of (dict_set u k v) = (map_of u)(k \<mapsto> v)"
  by (induction u k v rule: dict_set.induct) auto

lemma distinct_dict_set: "distinct (map fst u) \<Longrightarrow> distinct (map fst (dict_set u k v))"
  by (simp add: map_fst_dict_set)

lemma cit_inv_empty: "cit_inv b [] []"
  by (simp add: cit_inv_def)

lemma best_for_skip: "best_for b seen k c \<Longrightarrow> \<not> cited r \<Longrightarrow> best_for b (seen @ [r]) k c"
  unfolding best_for_def by auto

lemma best_for_other:
  "best_for b seen k c \<Longrightarrow> result_file_id r \<noteq> k \<Longrightarrow> best_for b (seen @ [r]) k c"
  unfolding best_for_def by auto

lemma best_for_keep:
  "best_for b seen k c \<Longrightarrow> relevance_score b (sr_distance r) = Inr s \<Longrightarrow>
   \<not> cit_relevance_score c < s \<Longrightarrow> best_for b (seen @ [r]) k c"
  unfolding best_for_def by auto

lemma best_for_new:
  assumes "\<forall>r' \<in> set seen. cited r' \<longrightarrow> result_file_id r' \<noteq> k"
    and "cited r" "result_file_id r = k" "relevance_score b (sr_distance r) = Inr s"
    and "cit_file_id c = k" "cit_relevance_score c = s"
  shows "best_for b (seen @ [r]) k c"
  using assms unfolding best_for_def by auto

lemma best_for_better:
  assumes "best_for b seen k c0" "cit_relevance_score c0 < s"
    and "cited r" "result_file_id r = k" "relevance_score b (sr_distance r) = Inr s"
    and "cit_file_id c = k" "cit_relevance_score c = s"
  shows "best_for b (seen @ [r]) k c"
  using assms unfolding best_for_def by fastforce

lemma cit_inv_skip: "cit_inv b seen u \<Longrightarrow> \<not> cited r \<Longrightarrow> cit_inv b (seen @ [r]) u"
  unfolding cit_inv_def by (auto intro: best_for_skip)

lemma cit_inv_keep:
  assumes "cit_inv b seen u" "relevance_score b (sr_distance r) = Inr s"
    and "map_of u (result_file_id r) = Some c0" "\<not> cit_relevance_score c0 < s"
  shows "cit_inv b (seen @ [r]) u"
  unfolding cit_inv_def
proof (intro conjI allI impI)
  show "distinct (map fst u)" using assms(1) by (simp add: cit_inv_def)
next
  fix k assume "map_of u k = None"
  with assms(1,3) show "\<forall>r' \<in> set (seen @ [r]). cited r' \<longrightarrow> result_file_id r' \<noteq> k"
    by (auto simp: cit_inv_def)
next
  fix k c assume kc: "map_of u k = Some c"
  with assms(1) have bf: "best_for b seen k c" by (simp add: cit_inv_def)
  show "best_for b (seen @ [r]) k c"
  proof (cases "result_file_id r = k")
    case True
    with kc assms(3) have "c = c0" by simp
    with bf assms(2,4) show ?thesis by (auto intro: best_for_keep)
  next
    case False
    with bf show ?thesis by (auto intro: best_for_other)
  qed
qed

lemma cit_inv_set:
  assumes "cit_inv b seen u" "cited r" "relevance_score b (sr_distance r) = Inr s"
    and "cit_file_id c = result_file_id r" "cit_relevance_score c = s"
    and "case map_of u (result_file_id r) of None \<Rightarrow> True | Some c0 \<Rightarrow> cit_relevance_score c0 < s"
  shows "cit_inv b (seen @ [r]) (dict_set u (result_file_id r) c)"
  unfolding cit_inv_def
proof (intro conjI allI impI)
  show "distinct (map fst (dict_set u (result_file_id r) c))"
    using assms(1) by (simp add: cit_inv_def distinct_dict_set)
next
  fix k assume "map_of (dict_set u (result_file_id r) c) k = None"
  then have "k \<noteq> result_file_id r" "map_of u k = None"
    by (auto simp: map_of_dict_set split: if_splits)
  with assms(1) show "\<forall>r' \<in> set (seen @ [r]). cited r' \<longrightarrow> result_file_id r' \<noteq> k"
    by (auto simp: cit_inv_def)
next
  fix k c' assume kc: "map_of (dict_set u (result_file_id r) c) k = Some c'"
  show "best_for b (seen @ [r]) k c'"
  proof (cases "result_file_id r = k")
    case False
    with kc have "map_of u k = Some c'" by (auto simp: map_of_dict_set split: if_splits)
    with assms(1) have "best_for b seen k c'" by (simp add: cit_inv_def)
    with False show ?thesis by (auto intro: best_for_other)
  next
    case True
    with kc have c': "c' = c" by (simp add: map_of_dict_set)
    show ?thesis
    proof (cases "map_of u k")
      case None
      with assms(1) have "\<forall>r' \<in> set seen. cited r' \<longrightarrow> result_file_id r' \<noteq> k"
        by (simp add: cit_inv_def)
      then show ?thesis unfolding c' using assms(2-5) True by (intro best_for_new) auto
    next
      case (Some c0)
      with assms(1) have "best_for b seen k c0" by (simp add: cit_inv_def)
      moreover from Some assms(6) True have "cit_relevance_score c0 < s" by simp
      ultimately show ?thesis unfolding c' using assms(2-5) True by (intro best_for_better) auto
    qed
  qed
qed

lemma citation_loop_inv:
  assumes "cit_inv (is_broad_query rt q) seen u"
    and "citation_loop rt fn q rest ctx u = Inr (ctx', u')"
  shows "cit_inv (is_broad_query rt q) (seen @ rest) u'"
  using assms
proof (induction rest arbitrary: seen ctx u)
  case Nil
  then show ?case by simp
next
  case (Cons r rest)
  let ?b = "is_broad_query rt q"
  show ?case
  proof (cases "cited r")
    case False
    with Cons.prems(2) have "citation_loop rt fn q rest ctx u = Inr (ctx', u')"
      by (simp add: cited_def Let_def)
    from Cons.IH [OF cit_inv_skip [OF Cons.prems(1) False] this] show ?thesis by simp
  next
    case True
    from Cons.prems(2) True obtain s where s: "relevance_score ?b (sr_distance r) = Inr s"
      by (cases "relevance_score ?b (sr_distance r)") (auto simp: cited_def Let_def)
    show ?thesis
    proof (cases "case map_of u (result_file_id r) of None \<Rightarrow> True | Some c0 \<Rightarrow> cit_relevance_score c0 < s")
      case upd: True
      define c where "c = \<lparr>cit_source = (case fn (result_file_id r) of Some n \<Rightarrow> n | None \<Rightarrow> result_file_id r),
          cit_file_id = result_file_id r,
          cit_page = (case md_page (sr_metadata r) of Some p \<Rightarrow> p | None \<Rightarrow> ustr ''Unknown''),
          cit_content = py_slice (sr_content r) 0 200 @ ustr ''...'',
          cit_relevance_score = s\<rparr>"
      from Cons.prems(2) True s upd obtain ctx1 where
        "citation_loop rt fn q rest ctx1 (dict_set u (result_file_id r) c) = Inr (ctx', u')"
        by (simp add: cited_def Let_def c_def)
      moreover have "cit_inv ?b (seen @ [r]) (dict_set u (result_file_id r) c)"
        using Cons.prems(1) True s _ _ upd by (rule cit_inv_set) (simp_all add: c_def)
      ultimately show ?thesis using Cons.IH by fastforce
    next
      case keep: False
      then obtain c0 where c0: "map_of u (result_file_id r) = Some c0" "\<not> cit_relevance_score c0 < s"
        by (auto split: option.splits)
      from Cons.prems(2) True s keep obtain ctx1 where
        "citation_loop rt fn q rest ctx1 u = Inr (ctx', u')"
        by (simp add: cited_def Let_def)
      moreover have "cit_inv ?b (seen @ [r]) u"
        using Cons.prems(1) s c0 by (rule cit_inv_keep)
      ultimately show ?thesis using Cons.IH by fastforce
    qed
  qed
qed

lemma citation_loop_total:
  assumes "\<forall>r \<in> set rest. 0 \<le> sr_distance r"
  shows "\<exists>ctx' u'. citation_loop rt fn q rest ctx u = Inr (ctx', u')"
  using assms
proof (induction rest arbitrary: ctx u)
  case Nil
  then show ?case by simp
next
  case (Cons r rest)
  then have "0 \<le> sr_distance r" by simp
  then have "1 + sr_distance r * 0.35 \<noteq> 0" by (simp add: add_pos_nonneg)
  then have "relevance_score (is_broad_query rt q) (sr_distance r)
      = Inr (py_round3 (claimed_score (is_broad_query rt q) (sr_distance r)))"
    by (rule relevance_score_eq)
  with Cons show ?case by (simp add: Let_def)
qed

lemma distinct_map_sort_key: "distinct (map f (sort_key k xs)) = distinct (map f xs)"
  by (simp add: distinct_map)

lemma descending_sort_key:
  "sorted_wrt (\<lambda>a b. g b \<le> g a) (sort_key (\<lambda>c. - g c) xs)" for g :: "'a \<Rightarrow> real"
  using sorted_sort_key [of "\<lambda>c. - g c" xs] by (simp add: sorted_map)

text \<open>
  Claim C5, as amended. For results with distances \<open>\<ge> 0\<close> the ranking returns one
  citation for each distinct file id among the results whose text is not blank, and no
  other; each carries the highest relevance score among the non-blank results of its
  file; the list is sorted by descending score.
\<close>

theorem citation_dedup:
  assumes "\<forall>r \<in> set results. 0 \<le> sr_distance r"
  shows "\<exists>ctx cits. rank_citations rt fn q results = Inr (ctx, cits)
    \<and> distinct (map cit_file_id cits)
    \<and> set (map cit_file_id cits) = result_file_id ` {r \<in> set results. cited r}
    \<and> length cits = card (result_file_id ` {r \<in> set results. cited r})
    \<and> (\<forall>c \<in> set cits. best_for (is_broad_query rt q) results (cit_file_id c) c)
    \<and> sorted_wrt (\<lambda>a b. cit_relevance_score b \<le> cit_relevance_score a) cits"
proof -
  let ?b = "is_broad_query rt q"
  let ?k = "\<lambda>c. - cit_relevance_score c"
  from citation_loop_total [OF assms] obtain ctx u
    where run: "citation_loop rt fn q results [] [] = Inr (ctx, u)" by blast
  from citation_loop_inv [OF cit_inv_empty this] have inv: "cit_inv ?b results u" by simp
  then have dist: "distinct (map fst u)" by (simp add: cit_inv_def)
  have mem: "best_for ?b results k c" if "(k, c) \<in> set u" for k c
    using that inv dist by (simp add: cit_inv_def)
  then have key: "cit_file_id c = k" if "(k, c) \<in> set u" for k c
    using that by (simp add: best_for_def)
  have keys: "map (cit_file_id \<circ> snd) u = map fst u"
  proof (rule map_cong [OF refl])
    fix x assume "x \<in> set u"
    then have "(fst x, snd x) \<in> set u" by simp
    from key [OF this] show "(cit_file_id \<circ> snd) x = fst x" by simp
  qed
  define cits where "cits = sort_key ?k (map snd u)"
  have r: "rank_citations rt fn q results = Inr (ctx, cits)"
    by (simp add: rank_citations_def run cits_def)
  have d: "distinct (map cit_file_id cits)"
    unfolding cits_def distinct_map_sort_key map_map keys by (rule dist)
  have fs: "fst ` set u = result_file_id ` {r \<in> set results. cited r}"
  proof (intro set_eqI iffI)
    fix k assume "k \<in> fst ` set u"
    then obtain c where "(k, c) \<in> set u" by auto
    from mem [OF this] obtain r where "r \<in> set results" "cited r" "result_file_id r = k"
      by (auto simp: best_for_def)
    then show "k \<in> result_file_id ` {r \<in> set results. cited r}" by blast
  next
    fix k assume "k \<in> result_file_id ` {r \<in> set results. cited r}"
    then obtain r where r: "r \<in> set results" "cited r" "result_file_id r = k" by blast
    have "map_of u k \<noteq> None"
    proof
      assume "map_of u k = None"
      with inv have "\<forall>r \<in> set results. cited r \<longrightarrow> result_file_id r \<noteq> k"
        unfolding cit_inv_def by blast
      with r show False by blast
    qed
    then show "k \<in> fst ` set u" by (simp add: map_of_eq_None_iff)
  qed
  have "set (map cit_file_id cits) = set (map (cit_file_id \<circ> snd) u)"
    by (simp add: cits_def image_image)
  also have "\<dots> = fst ` set u" by (simp only: keys set_map)
  finally have s: "set (map cit_file_id cits) = result_file_id ` {r \<in> set results. cited r}"
    by (simp only: fs)
  have l: "length cits = card (result_file_id ` {r \<in> set results. cited r})"
    using distinct_card [OF d] unfolding s by simp
  have bst: "\<forall>c \<in> set cits. best_for ?b results (cit_file_id c) c"
  proof
    fix c assume "c \<in> set cits"
    then obtain k where kc: "(k, c) \<in> set u" by (auto simp: cits_def)
    with mem [OF kc] key [OF kc] show "best_for ?b results (cit_file_id c) c" by simp
  qed
  have srt: "sorted_wrt (\<lambda>a b. cit_relevance_score b \<le> cit_relevance_score a) cits"
    unfolding cits_def by (rule descending_sort_key)
  show ?thesis by (intro exI [of _ ctx] exI [of _ cits] conjI r d s l bst srt)
qed

lemma ex_broad: "is_broad_query example_runtime (ustr ''total'') = False"
  by (simp add: is_broad_query_def example_runtime_def ascii_lower_def ustr_def)

text \<open>
  The claim as stated fails. Three results span the two file ids \<open>a\<close> and \<open>b\<close>; the
  only result of \<open>a\<close> has empty text, which line 220 skips, and the ranking returns
  one citation, not two.
\<close>

theorem citation_dedup_counterexample:
  "card (result_file_id ` set [example_result [] (ustr ''a'') 0.5,
                              example_result (ustr ''x'') (ustr ''b'') 0.5,
                              example_result (ustr ''y'') (ustr ''b'') 0.6]) = 2
   \<and> rank_citations example_runtime Map.empty (ustr ''total'')
        [example_result [] (ustr ''a'') 0.5,
         example_result (ustr ''x'') (ustr ''b'') 0.5,
         example_result (ustr ''y'') (ustr ''b'') 0.6]
      = Inr ([ustr ''[SOURCE: b, PAGE: Page 1]'' @ [10] @ ustr ''x'',
              ustr ''[SOURCE: b, PAGE: Page 1]'' @ [10] @ ustr ''y''],
             [\<lparr>cit_source = ustr ''b'', cit_file_id = ustr ''b'', cit_page = ustr ''Page 1'',
               cit_content = ustr ''x...'', cit_relevance_score = 0.851\<rparr>])"
  by (simp add: rank_citations_def is_broad_query_def example_runtime_def ascii_lower_def example_result_def example_meta_def result_file_id_def
      relevance_score_def py_round3_def round_half_even_def py_strip_def py_isspace_def
      py_slice_def slice_bound_def Let_def ustr_def)

theorem citation_dedup_witness:
  "0 \<le> sr_distance (example_result (ustr ''x'') (ustr ''b'') 0.6)
   \<and> 0 \<le> sr_distance (example_result (ustr ''y'') (ustr ''a'') 0.5)
   \<and> 0 \<le> sr_distance (example_result (ustr ''z'') (ustr ''b'') 0.5)
   \<and> (\<exists>ctx cits. rank_citations example_runtime Map.empty (ustr ''total'')
          [example_result (ustr ''x'') (ustr ''b'') 0.6,
           example_result (ustr ''y'') (ustr ''a'') 0.5,
           example_result (ustr ''z'') (ustr ''b'') 0.5] = Inr (ctx, cits)
        \<and> length cits = 2)"
proof -
  let ?L = "[example_result (ustr ''x'') (ustr ''b'') 0.6,
           example_result (ustr ''y'') (ustr ''a'') 0.5,
           example_result (ustr ''z'') (ustr ''b'') 0.5]"
  have h: "\<forall>r \<in> set ?L. 0 \<le> sr_distance r" by (simp add: example_result_def)
  have e: "map result_file_id (filter cited ?L) = [[98], [97], [98]]"
    by (simp add: cited_def example_result_def example_meta_def result_file_id_def
        py_strip_def py_isspace_def ustr_def)
  have i: "result_file_id ` {r \<in> set ?L. cited r} = set (map result_file_id (filter cited ?L))"
    by (simp only: set_map set_filter)
  have c: "card (result_file_id ` {r \<in> set ?L. cited r}) = 2"
    unfolding i e by (simp add: card_insert_if)
  from citation_dedup [OF h, of example_runtime Map.empty "ustr ''total''"] obtain ctx cits
    where "rank_citations example_runtime Map.empty (ustr ''total'') ?L = Inr (ctx, cits)"
      "length cits = card (result_file_id ` {r \<in> set ?L. cited r})" by blast
  with c have "\<exists>ctx cits. rank_citations example_runtime Map.empty (ustr ''total'') ?L = Inr (ctx, cits)
        \<and> length cits = 2" by auto
  with h show ?thesis by simp
qed



section \<open>Properties of the retrieval\<close>






text \<open>
  Claim C8. \<open>search\<close> returns a list for every input. It returns the empty list when
  there is no client, when the user's collection does not exist, and when the store's
  query raises.
\<close>

theorem search_degrades:
  "(\<exists>docs. search ch rt client user_id query n file_ids = Inr docs)
   \<and> search ch rt None user_id query n file_ids = Inr []
   \<and> (collections (search_collection_name user_id) = None \<longrightarrow>
        search ch rt (Some collections) user_id query n file_ids = Inr [])
   \<and> (collections (search_collection_name user_id) = Some c
        \<and> coll_query ch c query n (build_where_filter file_ids) = Inl e \<longrightarrow>
        search ch rt (Some collections) user_id query n file_ids = Inr [])"
  by (auto simp: search_def search_body_def split: option.splits sum.splits)

lemma py_replace_inj:
  assumes "b \<notin> set s" "b \<notin> set t" "py_replace a b s = py_replace a b t"
  shows "s = t"
  using assms
proof (induction s arbitrary: t)
  case Nil
  then show ?case by (simp add: py_replace_def)
next
  case (Cons x s)
  then obtain y t' where t: "t = y # t'" by (cases t) (auto simp: py_replace_def)
  with Cons.prems have "x = y" "py_replace a b s = py_replace a b t'"
    by (auto simp: py_replace_def split: if_splits)
  with Cons.IH [of t'] Cons.prems t show ?case by simp
qed

lemma process_document_frame:
  assumes "process_document ch rt ex (Some collections) path fid uid = Some (Some collections', res)"
    and "k \<noteq> process_document_collection_name uid"
  shows "collections' k = collections k"
  using assms
  by (auto simp: process_document_def Let_def split: if_splits option.splits sum.splits prod.splits)

lemma uuid_chars:
  assumes "is_uuid_str s" "c \<in> set s"
  shows "c = 45 \<or> is_hex_digit c"
proof -
  from assms(2) obtain i where "i < length s" "s ! i = c" by (auto simp: in_set_conv_nth)
  then have "(i, c) \<in> set (enumerate 0 s)" by (simp add: in_set_enumerate_eq)
  with assms(1) show ?thesis
    by (auto simp: is_uuid_str_def list_all_iff split: if_splits)
qed

lemma uuid_no_underscore: "is_uuid_str s \<Longrightarrow> 95 \<notin> set s"
  using uuid_chars [of s 95] by (auto simp: is_hex_digit_def)

lemma uuid_name_chars:
  assumes "is_uuid_str s"
  shows "list_all is_word_char (search_collection_name s)"
proof -
  have p: "list_all is_word_char (ustr ''user_'')"
    by (simp add: ustr_def is_word_char_def)
  have "is_word_char (if c = 45 then 95 else c)" if "c \<in> set s" for c
    using uuid_chars [OF assms that] by (auto simp: is_word_char_def is_hex_digit_def)
  then have q: "list_all is_word_char (py_replace 45 95 s)"
    unfolding py_replace_def list_all_iff by (simp del: if_image_distrib)
  show ?thesis by (simp add: search_collection_name_def p q)
qed

text \<open>
  Claim C1. \<open>process_document\<close> and \<open>search\<close> compute the same collection name for a
  user id: \<open>user_\<close> followed by the id with each hyphen replaced by an underscore. For
  the UUID strings that are the user ids, the name holds only letters, digits and
  underscores, the names of two distinct users differ, and indexing a document for one
  user leaves every search of the other unchanged: a search by one never returns chunks
  stored under the collection of the other.
\<close>

theorem collection_isolation:
  "process_document_collection_name a = search_collection_name a
   \<and> search_collection_name a = ustr ''user_'' @ map (\<lambda>c. if c = 45 then 95 else c) a
   \<and> (is_uuid_str a \<longrightarrow> list_all is_word_char (search_collection_name a))
   \<and> (is_uuid_str a \<and> is_uuid_str b \<and> a \<noteq> b \<longrightarrow>
        search_collection_name a \<noteq> process_document_collection_name b)
   \<and> (is_uuid_str a \<and> is_uuid_str b \<and> a \<noteq> b
        \<and> process_document ch rt ex (Some collections) path fid b = Some (Some collections', res) \<longrightarrow>
        search ch rt (Some collections') a query n file_ids
          = search ch rt (Some collections) a query n file_ids)"
proof -
  have distinct_names: "search_collection_name a \<noteq> process_document_collection_name b"
    if "is_uuid_str a" "is_uuid_str b" "a \<noteq> b"
  proof
    assume "search_collection_name a = process_document_collection_name b"
    then have "py_replace 45 95 a = py_replace 45 95 b"
      by (simp add: process_document_collection_name_def search_collection_name_def)
    with that uuid_no_underscore [of a] uuid_no_underscore [of b] py_replace_inj [of 95 a b 45]
    show False by simp
  qed
  show ?thesis
  proof (intro conjI impI)
    show "process_document_collection_name a = search_collection_name a"
      by (simp add: process_document_collection_name_def search_collection_name_def)
    show "search_collection_name a = ustr ''user_'' @ map (\<lambda>c. if c = 45 then 95 else c) a"
      by (simp add: search_collection_name_def py_replace_def)
  next
    assume "is_uuid_str a"
    then show "list_all is_word_char (search_collection_name a)" by (rule uuid_name_chars)
  next
    assume "is_uuid_str a \<and> is_uuid_str b \<and> a \<noteq> b"
    then show "search_collection_name a \<noteq> process_document_collection_name b"
      using distinct_names by blast
  next
    assume h: "is_uuid_str a \<and> is_uuid_str b \<and> a \<noteq> b
        \<and> process_document ch rt ex (Some collections) path fid b = Some (Some collections', res)"
    then have "search_collection_name a \<noteq> process_document_collection_name b"
      using distinct_names by blast
    with h process_document_frame [of ch rt ex collections path fid b collections' res "search_collection_name a"]
    have "collections' (search_collection_name a) = collections (search_collection_name a)" by simp
    then show "search ch rt (Some collections') a query n file_ids
          = search ch rt (Some collections) a query n file_ids"
      by (simp add: search_def)
  qed
qed

lemmas str_defs = example_runtime_def ascii_lower_def py_split_def py_isspace_def ustr_def









lemma ex_name: "search_collection_name (ustr ''u-1'') = ustr ''user_u_1''"
  by (simp add: search_collection_name_def py_replace_def ustr_def)

theorem search_degrades_witness:
  "Map.empty (search_collection_name (ustr ''u-1'')) = (None :: (ustring \<times> metadata) list option)
   \<and> search (example_chroma example_far) example_runtime (Some Map.empty) (ustr ''u-1'') (ustr ''total'') 5 None = Inr []
   \<and> [ustr ''user_u_1'' \<mapsto> example_collection] (search_collection_name (ustr ''u-1'')) = Some example_collection
   \<and> coll_query (example_chroma example_far) example_collection (ustr ''total'') 0 (build_where_filter None)
        = Inl (StoreError (ustr ''Number of requested results cannot be negative, or zero.''))
   \<and> search (example_chroma example_far) example_runtime (Some [ustr ''user_u_1'' \<mapsto> example_collection])
        (ustr ''u-1'') (ustr ''total'') 0 None = Inr []"
  using search_degrades [of "example_chroma example_far" example_runtime "Some Map.empty" "ustr ''u-1''" "ustr ''total''" 5 None
      Map.empty]
    search_degrades [of "example_chroma example_far" example_runtime "Some Map.empty" "ustr ''u-1''" "ustr ''total''" 0 None
      "[ustr ''user_u_1'' \<mapsto> example_collection]" example_collection
      "StoreError (ustr ''Number of requested results cannot be negative, or zero.'')"]
  by (simp add: ex_name) (simp add: example_chroma_def)

lemma ex_split: "split_text example_runtime (ustr ''secret plan'') 600 120 = Some [ustr ''secret plan'']"
  by (simp add: split_text_def has_thai_def split_loop_step split_loop_done window_end_def
      py_slice_def slice_bound_def py_strip_def str_defs)

lemma ex_process:
  "process_document (example_chroma example_near) example_runtime example_extract (Some Map.empty)
      (ustr ''plan.txt'') (ustr ''f1'') uid
   = Some (Some [process_document_collection_name uid \<mapsto>
                   [(ustr ''secret plan'',
                     \<lparr>md_file_id = Some (ustr ''f1''), md_page = Some (ustr ''General''),
                      md_user_id = Some uid, md_chunk_index = Some 0\<rparr>)]],
           Inr (Some (process_document_collection_name uid @ ustr '':'' @ ustr ''f1'')))"
  by (simp add: process_document_def example_extract_def ex_split page_of_def example_chroma_def Let_def)

lemma ex_uuid:
  "is_uuid_str (ustr ''123e4567-e89b-12d3-a456-426614174000'')"
  "is_uuid_str (ustr ''123e4567-e89b-12d3-a456-426614174001'')"
  by (simp_all add: is_uuid_str_def ustr_def is_hex_digit_def enumerate_eq_zip)

theorem collection_isolation_witness:
  "is_uuid_str (ustr ''123e4567-e89b-12d3-a456-426614174000'')
   \<and> is_uuid_str (ustr ''123e4567-e89b-12d3-a456-426614174001'')
   \<and> ustr ''123e4567-e89b-12d3-a456-426614174000'' \<noteq> ustr ''123e4567-e89b-12d3-a456-426614174001''
   \<and> search_collection_name (ustr ''123e4567-e89b-12d3-a456-426614174000'')
        = ustr ''user_123e4567_e89b_12d3_a456_426614174000''
   \<and> search_collection_name (ustr ''123e4567-e89b-12d3-a456-426614174000'')
        \<noteq> process_document_collection_name (ustr ''123e4567-e89b-12d3-a456-426614174001'')
   \<and> process_document (example_chroma example_near) example_runtime example_extract (Some Map.empty)
          (ustr ''plan.txt'') (ustr ''f1'') (ustr ''123e4567-e89b-12d3-a456-426614174001'')
      = Some (Some [process_document_collection_name (ustr ''123e4567-e89b-12d3-a456-426614174001'') \<mapsto>
                   [(ustr ''secret plan'',
                     \<lparr>md_file_id = Some (ustr ''f1''), md_page = Some (ustr ''General''),
                      md_user_id = Some (ustr ''123e4567-e89b-12d3-a456-426614174001''),
                      md_chunk_index = Some 0\<rparr>)]],
           Inr (Some (process_document_collection_name (ustr ''123e4567-e89b-12d3-a456-426614174001'')
                      @ ustr '':'' @ ustr ''f1'')))
   \<and> search (example_chroma example_near) example_runtime
         (Some [process_document_collection_name (ustr ''123e4567-e89b-12d3-a456-426614174001'') \<mapsto>
                   [(ustr ''secret plan'',
                     \<lparr>md_file_id = Some (ustr ''f1''), md_page = Some (ustr ''General''),
                      md_user_id = Some (ustr ''123e4567-e89b-12d3-a456-426614174001''),
                      md_chunk_index = Some 0\<rparr>)]])
         (ustr ''123e4567-e89b-12d3-a456-426614174000'') (ustr ''plan'') 5 None = Inr []"
proof -
  let ?a = "ustr ''123e4567-e89b-12d3-a456-426614174000''"
  let ?b = "ustr ''123e4567-e89b-12d3-a456-426614174001''"
  note u = ex_uuid
  have ne: "?a \<noteq> ?b" by (simp add: ustr_def)
  have nm: "search_collection_name ?a = ustr ''user_123e4567_e89b_12d3_a456_426614174000''"
    by (simp add: search_collection_name_def py_replace_def ustr_def)
  note p = ex_process [of ?b]
  have e: "search (example_chroma example_near) example_runtime (Some Map.empty) ?a (ustr ''plan'') 5 None = Inr []"
    by (simp add: search_def)
  from collection_isolation [of ?a ?b "example_chroma example_near" example_runtime
      example_extract Map.empty "ustr ''plan.txt''" "ustr ''f1''" _ _ "ustr ''plan''" 5 None]
  have c: "search_collection_name ?a \<noteq> process_document_collection_name ?b"
    and s: "search (example_chroma example_near) example_runtime
         (Some [process_document_collection_name ?b \<mapsto>
                   [(ustr ''secret plan'',
                     \<lparr>md_file_id = Some (ustr ''f1''), md_page = Some (ustr ''General''),
                      md_user_id = Some ?b, md_chunk_index = Some 0\<rparr>)]])
         ?a (ustr ''plan'') 5 None
       = search (example_chroma example_near) example_runtime (Some Map.empty) ?a (ustr ''plan'') 5 None"
    using u ne p by blast+
  show ?thesis
    by (intro conjI u ne nm c p) (simp only: s e)
qed

section \<open>Properties of the completion\<close>

lemma quota_exceeded_message_nonempty: "quota_exceeded_message \<noteq> []"
  by (simp add: quota_exceeded_message_def)

text \<open>
  Claim C9, as amended. \<open>generate_response\<close> returns a response dictionary for every
  input. When the delegated provider call raises with message \<open>msg\<close>, the content of the
  response is a message for the user and is not empty, \<open>completion_tokens\<close> is 0 and
  \<open>total_tokens\<close> equals \<open>prompt_tokens\<close>. The response carries the classification
  \<open>error_type = quota_exceeded\<close> when the provider is Google and \<open>msg\<close> contains
  \<open>429\<close> or \<open>RESOURCE_EXHAUSTED\<close>; otherwise it is the dictionary of the handler,
  whose content is the cross mark, \<open>**Error**:\<close> and \<open>msg\<close>, and it has no
  \<open>error_type\<close>.
\<close>

theorem completion_failure:
  "(\<exists>r. generate_response api sp message p model context history images = Inr r)
   \<and> (delegate_raises api p model (build_prompt sp message context history) images msg \<longrightarrow>
        (\<exists>r. generate_response api sp message p model context history images = Inr r
           \<and> r = (if prov_type p = GOOGLE \<and> is_quota_error msg
                   then quota_response model (int (length (build_prompt sp message context history)) div 4)
                   else error_response model (int (length (build_prompt sp message context history)) div 4) msg)
           \<and> resp_content r \<noteq> []
           \<and> resp_completion_tokens r = 0
           \<and> resp_total_tokens r = resp_prompt_tokens r
           \<and> resp_error_type r = (if prov_type p = GOOGLE \<and> is_quota_error msg
                                   then Some (ustr ''quota_exceeded'') else None)))"
proof (intro conjI impI)
  show "\<exists>r. generate_response api sp message p model context history images = Inr r"
    by (simp add: generate_response_def Let_def split: sum.splits)
next
  let ?prompt = "build_prompt sp message context history"
  let ?pt = "int (length ?prompt) div 4"
  let ?r = "if prov_type p = GOOGLE \<and> is_quota_error msg
            then quota_response model ?pt else error_response model ?pt msg"
  assume a: "delegate_raises api p model ?prompt images msg"
  have call: "call_provider api p model ?prompt ?pt images =
      (if prov_type p = GOOGLE \<and> is_quota_error msg then Inr (quota_response model ?pt) else Inl msg)"
    using a
    by (auto simp: delegate_raises_def call_provider_def generate_google_def
        generate_openai_compatible_def generate_anthropic_def is_openai_compatible_def Let_def)
  have g: "generate_response api sp message p model context history images = Inr ?r"
    by (simp add: generate_response_def Let_def call)
  have props: "resp_content ?r \<noteq> []" "resp_completion_tokens ?r = 0"
    "resp_total_tokens ?r = resp_prompt_tokens ?r"
    "resp_error_type ?r = (if prov_type p = GOOGLE \<and> is_quota_error msg
                           then Some (ustr ''quota_exceeded'') else None)"
    by (simp_all add: quota_response_def error_response_def quota_exceeded_message_nonempty)
  show "\<exists>r. generate_response api sp message p model context history images = Inr r
           \<and> r = ?r
           \<and> resp_content r \<noteq> []
           \<and> resp_completion_tokens r = 0
           \<and> resp_total_tokens r = resp_prompt_tokens r
           \<and> resp_error_type r = (if prov_type p = GOOGLE \<and> is_quota_error msg
                                   then Some (ustr ''quota_exceeded'') else None)"
    using g props by blast
qed

lemma ex_raises_openai:
  "delegate_raises example_api (example_provider OPENAI) model prompt images (ustr ''timed out'')"
  by (simp add: delegate_raises_def example_api_def example_provider_def is_openai_compatible_def
      resolve_base_url_def default_base_url_def ustr_def)

lemma ex_raises_google:
  "delegate_raises example_api (example_provider GOOGLE) model prompt images (ustr ''429 Too Many Requests'')"
  by (simp add: delegate_raises_def example_api_def example_provider_def)

lemma ex_quota: "is_quota_error (ustr ''429 Too Many Requests'')"
  by (simp add: is_quota_error_def ustr_def)

text \<open>
  The claim as stated fails. The call of an OpenAI provider times out, and the response
  has no \<open>error_type\<close>.
\<close>

theorem completion_failure_counterexample:
  "delegate_raises example_api (example_provider OPENAI) (ustr ''gpt-4o'')
      (build_prompt [] (ustr ''hi'') None None) None (ustr ''timed out'')
   \<and> generate_response example_api [] (ustr ''hi'') (example_provider OPENAI) (ustr ''gpt-4o'')
        None None None
      = Inr \<lparr>resp_content = [10060] @ ustr '' **Error**: timed out'', resp_model = ustr ''gpt-4o'',
              resp_prompt_tokens = 9, resp_completion_tokens = 0, resp_total_tokens = 9,
              resp_error_type = None\<rparr>"
proof -
  have "call_provider example_api (example_provider OPENAI) (ustr ''gpt-4o'')
          (build_prompt [] (ustr ''hi'') None None) 9 None = Inl (ustr ''timed out'')"
    by (simp add: call_provider_def example_api_def example_provider_def is_openai_compatible_def
        generate_openai_compatible_def resolve_base_url_def default_base_url_def Let_def)
  moreover have "int (length (build_prompt [] (ustr ''hi'') None None)) div 4 = 9"
    by (simp add: build_prompt_def ustr_def)
  ultimately have "generate_response example_api [] (ustr ''hi'') (example_provider OPENAI) (ustr ''gpt-4o'')
        None None None = Inr (error_response (ustr ''gpt-4o'') 9 (ustr ''timed out''))"
    by (simp add: generate_response_def Let_def)
  then show ?thesis using ex_raises_openai
    by (simp add: error_response_def ustr_def)
qed

theorem completion_failure_witness:
  "delegate_raises example_api (example_provider GOOGLE) (ustr ''gemini-2.0-flash'')
      (build_prompt [] (ustr ''hi'') None None) None (ustr ''429 Too Many Requests'')
   \<and> generate_response example_api [] (ustr ''hi'') (example_provider GOOGLE)
        (ustr ''gemini-2.0-flash'') None None None
      = Inr (quota_response (ustr ''gemini-2.0-flash'') 9)
   \<and> resp_completion_tokens (quota_response (ustr ''gemini-2.0-flash'') 9) = 0
   \<and> resp_error_type (quota_response (ustr ''gemini-2.0-flash'') 9) = Some (ustr ''quota_exceeded'')"
proof -
  have p: "int (length (build_prompt [] (ustr ''hi'') None None)) div 4 = 9"
    by (simp add: build_prompt_def ustr_def)
  have t: "prov_type (example_provider GOOGLE) = GOOGLE" by (simp add: example_provider_def)
  from completion_failure [of example_api "[]" "ustr ''hi''" "example_provider GOOGLE"
      "ustr ''gemini-2.0-flash''" None None None "ustr ''429 Too Many Requests''"]
    ex_raises_google ex_quota
  show ?thesis by (simp add: p t quota_response_def)
qed

end
